theory Spec2Isabelle
  imports Complex_Main "HOL-Library.Sublist"
begin

section \<open>Python strings\<close>

text \<open>
  A Python \<open>str\<close> is a sequence of Unicode code points. A code point is a natural
  number, a string a list of them; \<open>u\<close> reads an ASCII literal, and a character beyond
  ASCII is written by its number (233 is e-acute, 232 e-grave, 338 and 339 the capital and
  the small ligature oe, 8364 the euro sign, 160 and 8239 the two no-break spaces the
  source removes).
\<close>

type_synonym cp = nat

type_synonym ustring = "nat list"

definition u :: "string \<Rightarrow> ustring" where
  "u s = map of_char s"

subsection \<open>The character tables\<close>

text \<open>
  The properties of a character are those of CPython 3.11, whose tables are those of
  Unicode 14.0.0, for every code point from U+0000 to U+10FFFF. Below U+0100 a property is
  written out; from U+0100 on it is read from a table.

  A case rule \<open>(lo, hi, st, t)\<close> sends the code points \<open>lo\<close>, \<open>lo + st\<close>, ... up to \<open>hi\<close> to
  \<open>t\<close>, \<open>t + st\<close>, ...; \<open>mapped rs c\<close> is the image of \<open>c\<close> by the first rule of \<open>rs\<close> that
  holds it, and \<open>c\<close> itself when there is none.
\<close>

type_synonym case_rule = "cp \<times> cp \<times> nat \<times> cp"

definition in_rule :: "cp \<Rightarrow> case_rule \<Rightarrow> bool" where
  "in_rule c r = (case r of (lo, hi, st, t) \<Rightarrow> lo \<le> c \<and> c \<le> hi \<and> (c - lo) mod st = 0)"

definition mapped :: "case_rule list \<Rightarrow> cp \<Rightarrow> cp" where
  "mapped rs c =
     (case find (in_rule c) rs of None \<Rightarrow> c | Some (lo, hi, st, t) \<Rightarrow> t + (c - lo))"

definition in_ranges :: "cp \<Rightarrow> (cp \<times> cp) list \<Rightarrow> bool" where
  "in_ranges c rs = list_ex (\<lambda>(lo, hi). lo \<le> c \<and> c \<le> hi) rs"

text \<open>
  The simple lower-case mapping from U+0100 on (\<open>Py_UNICODE_TOLOWER\<close>): a code point that
  no rule holds is its own lower case.
\<close>

definition lower_table :: "case_rule list" where
  "lower_table =
     [(256, 302, 2, 257), (304, 304, 1, 105), (306, 310, 2, 307), (313, 327, 2, 314),
      (330, 374, 2, 331), (376, 376, 1, 255), (377, 381, 2, 378), (385, 385, 1, 595),
      (386, 388, 2, 387), (390, 390, 1, 596), (391, 391, 1, 392), (393, 394, 1, 598),
      (395, 395, 1, 396), (398, 398, 1, 477), (399, 399, 1, 601), (400, 400, 1, 603),
      (401, 401, 1, 402), (403, 403, 1, 608), (404, 404, 1, 611), (406, 406, 1, 617),
      (407, 407, 1, 616), (408, 408, 1, 409), (412, 412, 1, 623), (413, 413, 1, 626),
      (415, 415, 1, 629), (416, 420, 2, 417), (422, 422, 1, 640), (423, 423, 1, 424),
      (425, 425, 1, 643), (428, 428, 1, 429), (430, 430, 1, 648), (431, 431, 1, 432),
      (433, 434, 1, 650), (435, 437, 2, 436), (439, 439, 1, 658), (440, 440, 1, 441),
      (444, 444, 1, 445), (452, 452, 1, 454), (453, 453, 1, 454), (455, 455, 1, 457),
      (456, 456, 1, 457), (458, 458, 1, 460), (459, 475, 2, 460), (478, 494, 2, 479),
      (497, 497, 1, 499), (498, 500, 2, 499), (502, 502, 1, 405), (503, 503, 1, 447),
      (504, 542, 2, 505), (544, 544, 1, 414), (546, 562, 2, 547), (570, 570, 1, 11365),
      (571, 571, 1, 572), (573, 573, 1, 410), (574, 574, 1, 11366), (577, 577, 1, 578),
      (579, 579, 1, 384), (580, 580, 1, 649), (581, 581, 1, 652), (582, 590, 2, 583),
      (880, 882, 2, 881), (886, 886, 1, 887), (895, 895, 1, 1011), (902, 902, 1, 940),
      (904, 906, 1, 941), (908, 908, 1, 972), (910, 911, 1, 973), (913, 929, 1, 945),
      (931, 939, 1, 963), (975, 975, 1, 983), (984, 1006, 2, 985), (1012, 1012, 1, 952),
      (1015, 1015, 1, 1016), (1017, 1017, 1, 1010), (1018, 1018, 1, 1019), (1021, 1023, 1, 891),
      (1024, 1039, 1, 1104), (1040, 1071, 1, 1072), (1120, 1152, 2, 1121), (1162, 1214, 2, 1163),
      (1216, 1216, 1, 1231), (1217, 1229, 2, 1218), (1232, 1326, 2, 1233), (1329, 1366, 1, 1377),
      (4256, 4293, 1, 11520), (4295, 4295, 1, 11559), (4301, 4301, 1, 11565),
      (5024, 5103, 1, 43888), (5104, 5109, 1, 5112), (7312, 7354, 1, 4304),
      (7357, 7359, 1, 4349), (7680, 7828, 2, 7681), (7838, 7838, 1, 223), (7840, 7934, 2, 7841),
      (7944, 7951, 1, 7936), (7960, 7965, 1, 7952), (7976, 7983, 1, 7968), (7992, 7999, 1, 7984),
      (8008, 8013, 1, 8000), (8025, 8031, 2, 8017), (8040, 8047, 1, 8032), (8072, 8079, 1, 8064),
      (8088, 8095, 1, 8080), (8104, 8111, 1, 8096), (8120, 8121, 1, 8112), (8122, 8123, 1, 8048),
      (8124, 8124, 1, 8115), (8136, 8139, 1, 8050), (8140, 8140, 1, 8131), (8152, 8153, 1, 8144),
      (8154, 8155, 1, 8054), (8168, 8169, 1, 8160), (8170, 8171, 1, 8058), (8172, 8172, 1, 8165),
      (8184, 8185, 1, 8056), (8186, 8187, 1, 8060), (8188, 8188, 1, 8179), (8486, 8486, 1, 969),
      (8490, 8490, 1, 107), (8491, 8491, 1, 229), (8498, 8498, 1, 8526), (8544, 8559, 1, 8560),
      (8579, 8579, 1, 8580), (9398, 9423, 1, 9424), (11264, 11311, 1, 11312),
      (11360, 11360, 1, 11361), (11362, 11362, 1, 619), (11363, 11363, 1, 7549),
      (11364, 11364, 1, 637), (11367, 11371, 2, 11368), (11373, 11373, 1, 593),
      (11374, 11374, 1, 625), (11375, 11375, 1, 592), (11376, 11376, 1, 594),
      (11378, 11378, 1, 11379), (11381, 11381, 1, 11382), (11390, 11391, 1, 575),
      (11392, 11490, 2, 11393), (11499, 11501, 2, 11500), (11506, 11506, 1, 11507),
      (42560, 42604, 2, 42561), (42624, 42650, 2, 42625), (42786, 42798, 2, 42787),
      (42802, 42862, 2, 42803), (42873, 42875, 2, 42874), (42877, 42877, 1, 7545),
      (42878, 42886, 2, 42879), (42891, 42891, 1, 42892), (42893, 42893, 1, 613),
      (42896, 42898, 2, 42897), (42902, 42920, 2, 42903), (42922, 42922, 1, 614),
      (42923, 42923, 1, 604), (42924, 42924, 1, 609), (42925, 42925, 1, 620),
      (42926, 42926, 1, 618), (42928, 42928, 1, 670), (42929, 42929, 1, 647),
      (42930, 42930, 1, 669), (42931, 42931, 1, 43859), (42932, 42946, 2, 42933),
      (42948, 42948, 1, 42900), (42949, 42949, 1, 642), (42950, 42950, 1, 7566),
      (42951, 42953, 2, 42952), (42960, 42960, 1, 42961), (42966, 42968, 2, 42967),
      (42997, 42997, 1, 42998), (65313, 65338, 1, 65345), (66560, 66599, 1, 66600),
      (66736, 66771, 1, 66776), (66928, 66964, 2, 66967), (66929, 66937, 2, 66968),
      (66941, 66953, 2, 66980), (66957, 66961, 2, 66996), (66965, 66965, 1, 67004),
      (68736, 68786, 1, 68800), (71840, 71871, 1, 71872), (93760, 93791, 1, 93792),
      (125184, 125217, 1, 125218)]"

text \<open>
  The title-case mapping from U+0100 on: the code points whose title case is one other
  code point, and those whose title case is several code points.
\<close>

definition title_table :: "case_rule list" where
  "title_table =
     [(257, 303, 2, 256), (305, 305, 1, 73), (307, 311, 2, 306), (314, 328, 2, 313),
      (331, 375, 2, 330), (378, 382, 2, 377), (383, 383, 1, 83), (384, 384, 1, 579),
      (387, 389, 2, 386), (392, 392, 1, 391), (396, 396, 1, 395), (402, 402, 1, 401),
      (405, 405, 1, 502), (409, 409, 1, 408), (410, 410, 1, 573), (414, 414, 1, 544),
      (417, 421, 2, 416), (424, 424, 1, 423), (429, 429, 1, 428), (432, 432, 1, 431),
      (436, 438, 2, 435), (441, 441, 1, 440), (445, 445, 1, 444), (447, 447, 1, 503),
      (452, 452, 1, 453), (454, 454, 1, 453), (455, 455, 1, 456), (457, 457, 1, 456),
      (458, 458, 1, 459), (460, 476, 2, 459), (477, 477, 1, 398), (479, 495, 2, 478),
      (497, 497, 1, 498), (499, 501, 2, 498), (505, 543, 2, 504), (547, 563, 2, 546),
      (572, 572, 1, 571), (575, 576, 1, 11390), (578, 578, 1, 577), (583, 591, 2, 582),
      (592, 592, 1, 11375), (593, 593, 1, 11373), (594, 594, 1, 11376), (595, 595, 1, 385),
      (596, 596, 1, 390), (598, 599, 1, 393), (601, 601, 1, 399), (603, 603, 1, 400),
      (604, 604, 1, 42923), (608, 608, 1, 403), (609, 609, 1, 42924), (611, 611, 1, 404),
      (613, 613, 1, 42893), (614, 614, 1, 42922), (616, 616, 1, 407), (617, 617, 1, 406),
      (618, 618, 1, 42926), (619, 619, 1, 11362), (620, 620, 1, 42925), (623, 623, 1, 412),
      (625, 625, 1, 11374), (626, 626, 1, 413), (629, 629, 1, 415), (637, 637, 1, 11364),
      (640, 640, 1, 422), (642, 642, 1, 42949), (643, 643, 1, 425), (647, 647, 1, 42929),
      (648, 648, 1, 430), (649, 649, 1, 580), (650, 651, 1, 433), (652, 652, 1, 581),
      (658, 658, 1, 439), (669, 669, 1, 42930), (670, 670, 1, 42928), (837, 837, 1, 921),
      (881, 883, 2, 880), (887, 887, 1, 886), (891, 893, 1, 1021), (940, 940, 1, 902),
      (941, 943, 1, 904), (945, 961, 1, 913), (962, 962, 1, 931), (963, 971, 1, 931),
      (972, 972, 1, 908), (973, 974, 1, 910), (976, 976, 1, 914), (977, 977, 1, 920),
      (981, 981, 1, 934), (982, 982, 1, 928), (983, 983, 1, 975), (985, 1007, 2, 984),
      (1008, 1008, 1, 922), (1009, 1009, 1, 929), (1010, 1010, 1, 1017), (1011, 1011, 1, 895),
      (1013, 1013, 1, 917), (1016, 1016, 1, 1015), (1019, 1019, 1, 1018), (1072, 1103, 1, 1040),
      (1104, 1119, 1, 1024), (1121, 1153, 2, 1120), (1163, 1215, 2, 1162), (1218, 1230, 2, 1217),
      (1231, 1231, 1, 1216), (1233, 1327, 2, 1232), (1377, 1414, 1, 1329), (5112, 5117, 1, 5104),
      (7296, 7296, 1, 1042), (7297, 7297, 1, 1044), (7298, 7298, 1, 1054), (7299, 7300, 1, 1057),
      (7301, 7301, 1, 1058), (7302, 7302, 1, 1066), (7303, 7303, 1, 1122),
      (7304, 7304, 1, 42570), (7545, 7545, 1, 42877), (7549, 7549, 1, 11363),
      (7566, 7566, 1, 42950), (7681, 7829, 2, 7680), (7835, 7835, 1, 7776),
      (7841, 7935, 2, 7840), (7936, 7943, 1, 7944), (7952, 7957, 1, 7960), (7968, 7975, 1, 7976),
      (7984, 7991, 1, 7992), (8000, 8005, 1, 8008), (8017, 8023, 2, 8025), (8032, 8039, 1, 8040),
      (8048, 8049, 1, 8122), (8050, 8053, 1, 8136), (8054, 8055, 1, 8154), (8056, 8057, 1, 8184),
      (8058, 8059, 1, 8170), (8060, 8061, 1, 8186), (8064, 8071, 1, 8072), (8080, 8087, 1, 8088),
      (8096, 8103, 1, 8104), (8112, 8113, 1, 8120), (8115, 8115, 1, 8124), (8126, 8126, 1, 921),
      (8131, 8131, 1, 8140), (8144, 8145, 1, 8152), (8160, 8161, 1, 8168), (8165, 8165, 1, 8172),
      (8179, 8179, 1, 8188), (8526, 8526, 1, 8498), (8560, 8575, 1, 8544), (8580, 8580, 1, 8579),
      (9424, 9449, 1, 9398), (11312, 11359, 1, 11264), (11361, 11361, 1, 11360),
      (11365, 11365, 1, 570), (11366, 11366, 1, 574), (11368, 11372, 2, 11367),
      (11379, 11379, 1, 11378), (11382, 11382, 1, 11381), (11393, 11491, 2, 11392),
      (11500, 11502, 2, 11499), (11507, 11507, 1, 11506), (11520, 11557, 1, 4256),
      (11559, 11559, 1, 4295), (11565, 11565, 1, 4301), (42561, 42605, 2, 42560),
      (42625, 42651, 2, 42624), (42787, 42799, 2, 42786), (42803, 42863, 2, 42802),
      (42874, 42876, 2, 42873), (42879, 42887, 2, 42878), (42892, 42892, 1, 42891),
      (42897, 42899, 2, 42896), (42900, 42900, 1, 42948), (42903, 42921, 2, 42902),
      (42933, 42947, 2, 42932), (42952, 42954, 2, 42951), (42961, 42961, 1, 42960),
      (42967, 42969, 2, 42966), (42998, 42998, 1, 42997), (43859, 43859, 1, 42931),
      (43888, 43967, 1, 5024), (65345, 65370, 1, 65313), (66600, 66639, 1, 66560),
      (66776, 66811, 1, 66736), (66967, 67003, 2, 66928), (66968, 66976, 2, 66929),
      (66980, 66992, 2, 66941), (66996, 67000, 2, 66957), (67004, 67004, 1, 66965),
      (68800, 68850, 1, 68736), (71872, 71903, 1, 71840), (93792, 93823, 1, 93760),
      (125218, 125251, 1, 125184)]"

definition title_special :: "(cp \<times> ustring) list" where
  "title_special =
     [(329, [700, 78]), (496, [74, 780]), (912, [921, 776, 769]), (944, [933, 776, 769]),
      (1415, [1333, 1410]), (7830, [72, 817]), (7831, [84, 776]), (7832, [87, 778]),
      (7833, [89, 778]), (7834, [65, 702]), (8016, [933, 787]), (8018, [933, 787, 768]),
      (8020, [933, 787, 769]), (8022, [933, 787, 834]), (8114, [8122, 837]), (8116, [902, 837]),
      (8118, [913, 834]), (8119, [913, 834, 837]), (8130, [8138, 837]), (8132, [905, 837]),
      (8134, [919, 834]), (8135, [919, 834, 837]), (8146, [921, 776, 768]),
      (8147, [921, 776, 769]), (8150, [921, 834]), (8151, [921, 776, 834]),
      (8162, [933, 776, 768]), (8163, [933, 776, 769]), (8164, [929, 787]), (8166, [933, 834]),
      (8167, [933, 776, 834]), (8178, [8186, 837]), (8180, [911, 837]), (8182, [937, 834]),
      (8183, [937, 834, 837]), (64256, [70, 102]), (64257, [70, 105]), (64258, [70, 108]),
      (64259, [70, 102, 105]), (64260, [70, 102, 108]), (64261, [83, 116]), (64262, [83, 116]),
      (64275, [1348, 1398]), (64276, [1348, 1381]), (64277, [1348, 1387]), (64278, [1358, 1398]),
      (64279, [1348, 1389])]"

text \<open>
  The decimal digits (category \<open>Nd\<close>) from U+0100 on: the code point of each digit zero;
  the digits one to nine of its script follow it.
\<close>

definition decimal_zeros :: "cp list" where
  "decimal_zeros =
     [1632, 1776, 1984, 2406, 2534, 2662, 2790, 2918, 3046, 3174, 3302, 3430, 3558, 3664, 3792,
      3872, 4160, 4240, 6112, 6160, 6470, 6608, 6784, 6800, 6992, 7088, 7232, 7248, 42528, 43216,
      43264, 43472, 43504, 43600, 44016, 65296, 66720, 68912, 69734, 69872, 69942, 70096, 70384,
      70736, 70864, 71248, 71360, 71472, 71904, 72016, 72784, 73040, 73120, 92768, 92864, 93008,
      120782, 120792, 120802, 120812, 120822, 123200, 123632, 125264, 130032]"

text \<open>The characters of the class \<open>\w\<close> from U+0100 on (\<open>str.isalnum\<close>; the underscore is below).\<close>

definition word_table :: "(cp \<times> cp) list" where
  "word_table =
     [(256, 705), (710, 721), (736, 740), (748, 748), (750, 750), (880, 884), (886, 887),
      (890, 893), (895, 895), (902, 902), (904, 906), (908, 908), (910, 929), (931, 1013),
      (1015, 1153), (1162, 1327), (1329, 1366), (1369, 1369), (1376, 1416), (1488, 1514),
      (1519, 1522), (1568, 1610), (1632, 1641), (1646, 1647), (1649, 1747), (1749, 1749),
      (1765, 1766), (1774, 1788), (1791, 1791), (1808, 1808), (1810, 1839), (1869, 1957),
      (1969, 1969), (1984, 2026), (2036, 2037), (2042, 2042), (2048, 2069), (2074, 2074),
      (2084, 2084), (2088, 2088), (2112, 2136), (2144, 2154), (2160, 2183), (2185, 2190),
      (2208, 2249), (2308, 2361), (2365, 2365), (2384, 2384), (2392, 2401), (2406, 2415),
      (2417, 2432), (2437, 2444), (2447, 2448), (2451, 2472), (2474, 2480), (2482, 2482),
      (2486, 2489), (2493, 2493), (2510, 2510), (2524, 2525), (2527, 2529), (2534, 2545),
      (2548, 2553), (2556, 2556), (2565, 2570), (2575, 2576), (2579, 2600), (2602, 2608),
      (2610, 2611), (2613, 2614), (2616, 2617), (2649, 2652), (2654, 2654), (2662, 2671),
      (2674, 2676), (2693, 2701), (2703, 2705), (2707, 2728), (2730, 2736), (2738, 2739),
      (2741, 2745), (2749, 2749), (2768, 2768), (2784, 2785), (2790, 2799), (2809, 2809),
      (2821, 2828), (2831, 2832), (2835, 2856), (2858, 2864), (2866, 2867), (2869, 2873),
      (2877, 2877), (2908, 2909), (2911, 2913), (2918, 2927), (2929, 2935), (2947, 2947),
      (2949, 2954), (2958, 2960), (2962, 2965), (2969, 2970), (2972, 2972), (2974, 2975),
      (2979, 2980), (2984, 2986), (2990, 3001), (3024, 3024), (3046, 3058), (3077, 3084),
      (3086, 3088), (3090, 3112), (3114, 3129), (3133, 3133), (3160, 3162), (3165, 3165),
      (3168, 3169), (3174, 3183), (3192, 3198), (3200, 3200), (3205, 3212), (3214, 3216),
      (3218, 3240), (3242, 3251), (3253, 3257), (3261, 3261), (3293, 3294), (3296, 3297),
      (3302, 3311), (3313, 3314), (3332, 3340), (3342, 3344), (3346, 3386), (3389, 3389),
      (3406, 3406), (3412, 3414), (3416, 3425), (3430, 3448), (3450, 3455), (3461, 3478),
      (3482, 3505), (3507, 3515), (3517, 3517), (3520, 3526), (3558, 3567), (3585, 3632),
      (3634, 3635), (3648, 3654), (3664, 3673), (3713, 3714), (3716, 3716), (3718, 3722),
      (3724, 3747), (3749, 3749), (3751, 3760), (3762, 3763), (3773, 3773), (3776, 3780),
      (3782, 3782), (3792, 3801), (3804, 3807), (3840, 3840), (3872, 3891), (3904, 3911),
      (3913, 3948), (3976, 3980), (4096, 4138), (4159, 4169), (4176, 4181), (4186, 4189),
      (4193, 4193), (4197, 4198), (4206, 4208), (4213, 4225), (4238, 4238), (4240, 4249),
      (4256, 4293), (4295, 4295), (4301, 4301), (4304, 4346), (4348, 4680), (4682, 4685),
      (4688, 4694), (4696, 4696), (4698, 4701), (4704, 4744), (4746, 4749), (4752, 4784),
      (4786, 4789), (4792, 4798), (4800, 4800), (4802, 4805), (4808, 4822), (4824, 4880),
      (4882, 4885), (4888, 4954), (4969, 4988), (4992, 5007), (5024, 5109), (5112, 5117),
      (5121, 5740), (5743, 5759), (5761, 5786), (5792, 5866), (5870, 5880), (5888, 5905),
      (5919, 5937), (5952, 5969), (5984, 5996), (5998, 6000), (6016, 6067), (6103, 6103),
      (6108, 6108), (6112, 6121), (6128, 6137), (6160, 6169), (6176, 6264), (6272, 6276),
      (6279, 6312), (6314, 6314), (6320, 6389), (6400, 6430), (6470, 6509), (6512, 6516),
      (6528, 6571), (6576, 6601), (6608, 6618), (6656, 6678), (6688, 6740), (6784, 6793),
      (6800, 6809), (6823, 6823), (6917, 6963), (6981, 6988), (6992, 7001), (7043, 7072),
      (7086, 7141), (7168, 7203), (7232, 7241), (7245, 7293), (7296, 7304), (7312, 7354),
      (7357, 7359), (7401, 7404), (7406, 7411), (7413, 7414), (7418, 7418), (7424, 7615),
      (7680, 7957), (7960, 7965), (7968, 8005), (8008, 8013), (8016, 8023), (8025, 8025),
      (8027, 8027), (8029, 8029), (8031, 8061), (8064, 8116), (8118, 8124), (8126, 8126),
      (8130, 8132), (8134, 8140), (8144, 8147), (8150, 8155), (8160, 8172), (8178, 8180),
      (8182, 8188), (8304, 8305), (8308, 8313), (8319, 8329), (8336, 8348), (8450, 8450),
      (8455, 8455), (8458, 8467), (8469, 8469), (8473, 8477), (8484, 8484), (8486, 8486),
      (8488, 8488), (8490, 8493), (8495, 8505), (8508, 8511), (8517, 8521), (8526, 8526),
      (8528, 8585), (9312, 9371), (9450, 9471), (10102, 10131), (11264, 11492), (11499, 11502),
      (11506, 11507), (11517, 11517), (11520, 11557), (11559, 11559), (11565, 11565),
      (11568, 11623), (11631, 11631), (11648, 11670), (11680, 11686), (11688, 11694),
      (11696, 11702), (11704, 11710), (11712, 11718), (11720, 11726), (11728, 11734),
      (11736, 11742), (11823, 11823), (12293, 12295), (12321, 12329), (12337, 12341),
      (12344, 12348), (12353, 12438), (12445, 12447), (12449, 12538), (12540, 12543),
      (12549, 12591), (12593, 12686), (12690, 12693), (12704, 12735), (12784, 12799),
      (12832, 12841), (12872, 12879), (12881, 12895), (12928, 12937), (12977, 12991),
      (13312, 19903), (19968, 42124), (42192, 42237), (42240, 42508), (42512, 42539),
      (42560, 42606), (42623, 42653), (42656, 42735), (42775, 42783), (42786, 42888),
      (42891, 42954), (42960, 42961), (42963, 42963), (42965, 42969), (42994, 43009),
      (43011, 43013), (43015, 43018), (43020, 43042), (43056, 43061), (43072, 43123),
      (43138, 43187), (43216, 43225), (43250, 43255), (43259, 43259), (43261, 43262),
      (43264, 43301), (43312, 43334), (43360, 43388), (43396, 43442), (43471, 43481),
      (43488, 43492), (43494, 43518), (43520, 43560), (43584, 43586), (43588, 43595),
      (43600, 43609), (43616, 43638), (43642, 43642), (43646, 43695), (43697, 43697),
      (43701, 43702), (43705, 43709), (43712, 43712), (43714, 43714), (43739, 43741),
      (43744, 43754), (43762, 43764), (43777, 43782), (43785, 43790), (43793, 43798),
      (43808, 43814), (43816, 43822), (43824, 43866), (43868, 43881), (43888, 44002),
      (44016, 44025), (44032, 55203), (55216, 55238), (55243, 55291), (63744, 64109),
      (64112, 64217), (64256, 64262), (64275, 64279), (64285, 64285), (64287, 64296),
      (64298, 64310), (64312, 64316), (64318, 64318), (64320, 64321), (64323, 64324),
      (64326, 64433), (64467, 64829), (64848, 64911), (64914, 64967), (65008, 65019),
      (65136, 65140), (65142, 65276), (65296, 65305), (65313, 65338), (65345, 65370),
      (65382, 65470), (65474, 65479), (65482, 65487), (65490, 65495), (65498, 65500),
      (65536, 65547), (65549, 65574), (65576, 65594), (65596, 65597), (65599, 65613),
      (65616, 65629), (65664, 65786), (65799, 65843), (65856, 65912), (65930, 65931),
      (66176, 66204), (66208, 66256), (66273, 66299), (66304, 66339), (66349, 66378),
      (66384, 66421), (66432, 66461), (66464, 66499), (66504, 66511), (66513, 66517),
      (66560, 66717), (66720, 66729), (66736, 66771), (66776, 66811), (66816, 66855),
      (66864, 66915), (66928, 66938), (66940, 66954), (66956, 66962), (66964, 66965),
      (66967, 66977), (66979, 66993), (66995, 67001), (67003, 67004), (67072, 67382),
      (67392, 67413), (67424, 67431), (67456, 67461), (67463, 67504), (67506, 67514),
      (67584, 67589), (67592, 67592), (67594, 67637), (67639, 67640), (67644, 67644),
      (67647, 67669), (67672, 67702), (67705, 67742), (67751, 67759), (67808, 67826),
      (67828, 67829), (67835, 67867), (67872, 67897), (67968, 68023), (68028, 68047),
      (68050, 68096), (68112, 68115), (68117, 68119), (68121, 68149), (68160, 68168),
      (68192, 68222), (68224, 68255), (68288, 68295), (68297, 68324), (68331, 68335),
      (68352, 68405), (68416, 68437), (68440, 68466), (68472, 68497), (68521, 68527),
      (68608, 68680), (68736, 68786), (68800, 68850), (68858, 68899), (68912, 68921),
      (69216, 69246), (69248, 69289), (69296, 69297), (69376, 69415), (69424, 69445),
      (69457, 69460), (69488, 69505), (69552, 69579), (69600, 69622), (69635, 69687),
      (69714, 69743), (69745, 69746), (69749, 69749), (69763, 69807), (69840, 69864),
      (69872, 69881), (69891, 69926), (69942, 69951), (69956, 69956), (69959, 69959),
      (69968, 70002), (70006, 70006), (70019, 70066), (70081, 70084), (70096, 70106),
      (70108, 70108), (70113, 70132), (70144, 70161), (70163, 70187), (70272, 70278),
      (70280, 70280), (70282, 70285), (70287, 70301), (70303, 70312), (70320, 70366),
      (70384, 70393), (70405, 70412), (70415, 70416), (70419, 70440), (70442, 70448),
      (70450, 70451), (70453, 70457), (70461, 70461), (70480, 70480), (70493, 70497),
      (70656, 70708), (70727, 70730), (70736, 70745), (70751, 70753), (70784, 70831),
      (70852, 70853), (70855, 70855), (70864, 70873), (71040, 71086), (71128, 71131),
      (71168, 71215), (71236, 71236), (71248, 71257), (71296, 71338), (71352, 71352),
      (71360, 71369), (71424, 71450), (71472, 71483), (71488, 71494), (71680, 71723),
      (71840, 71922), (71935, 71942), (71945, 71945), (71948, 71955), (71957, 71958),
      (71960, 71983), (71999, 71999), (72001, 72001), (72016, 72025), (72096, 72103),
      (72106, 72144), (72161, 72161), (72163, 72163), (72192, 72192), (72203, 72242),
      (72250, 72250), (72272, 72272), (72284, 72329), (72349, 72349), (72368, 72440),
      (72704, 72712), (72714, 72750), (72768, 72768), (72784, 72812), (72818, 72847),
      (72960, 72966), (72968, 72969), (72971, 73008), (73030, 73030), (73040, 73049),
      (73056, 73061), (73063, 73064), (73066, 73097), (73112, 73112), (73120, 73129),
      (73440, 73458), (73648, 73648), (73664, 73684), (73728, 74649), (74752, 74862),
      (74880, 75075), (77712, 77808), (77824, 78894), (82944, 83526), (92160, 92728),
      (92736, 92766), (92768, 92777), (92784, 92862), (92864, 92873), (92880, 92909),
      (92928, 92975), (92992, 92995), (93008, 93017), (93019, 93025), (93027, 93047),
      (93053, 93071), (93760, 93846), (93952, 94026), (94032, 94032), (94099, 94111),
      (94176, 94177), (94179, 94179), (94208, 100343), (100352, 101589), (101632, 101640),
      (110576, 110579), (110581, 110587), (110589, 110590), (110592, 110882), (110928, 110930),
      (110948, 110951), (110960, 111355), (113664, 113770), (113776, 113788), (113792, 113800),
      (113808, 113817), (119520, 119539), (119648, 119672), (119808, 119892), (119894, 119964),
      (119966, 119967), (119970, 119970), (119973, 119974), (119977, 119980), (119982, 119993),
      (119995, 119995), (119997, 120003), (120005, 120069), (120071, 120074), (120077, 120084),
      (120086, 120092), (120094, 120121), (120123, 120126), (120128, 120132), (120134, 120134),
      (120138, 120144), (120146, 120485), (120488, 120512), (120514, 120538), (120540, 120570),
      (120572, 120596), (120598, 120628), (120630, 120654), (120656, 120686), (120688, 120712),
      (120714, 120744), (120746, 120770), (120772, 120779), (120782, 120831), (122624, 122654),
      (123136, 123180), (123191, 123197), (123200, 123209), (123214, 123214), (123536, 123565),
      (123584, 123627), (123632, 123641), (124896, 124902), (124904, 124907), (124909, 124910),
      (124912, 124926), (124928, 125124), (125127, 125135), (125184, 125251), (125259, 125259),
      (125264, 125273), (126065, 126123), (126125, 126127), (126129, 126132), (126209, 126253),
      (126255, 126269), (126464, 126467), (126469, 126495), (126497, 126498), (126500, 126500),
      (126503, 126503), (126505, 126514), (126516, 126519), (126521, 126521), (126523, 126523),
      (126530, 126530), (126535, 126535), (126537, 126537), (126539, 126539), (126541, 126543),
      (126545, 126546), (126548, 126548), (126551, 126551), (126553, 126553), (126555, 126555),
      (126557, 126557), (126559, 126559), (126561, 126562), (126564, 126564), (126567, 126570),
      (126572, 126578), (126580, 126583), (126585, 126588), (126590, 126590), (126592, 126601),
      (126603, 126619), (126625, 126627), (126629, 126633), (126635, 126651), (127232, 127244),
      (130032, 130041), (131072, 173791), (173824, 177976), (177984, 178205), (178208, 183969),
      (183984, 191456), (194560, 195101), (196608, 201546)]"

text \<open>
  The properties \<open>Cased\<close> and \<open>Case_Ignorable\<close>, for all code points: \<open>str.lower\<close> reads them
  around a capital sigma.
\<close>

definition cased_table :: "(cp \<times> cp) list" where
  "cased_table =
     [(65, 90), (97, 122), (170, 170), (181, 181), (186, 186), (192, 214), (216, 246),
      (248, 442), (444, 447), (452, 659), (661, 696), (704, 705), (736, 740), (837, 837),
      (880, 883), (886, 887), (890, 893), (895, 895), (902, 902), (904, 906), (908, 908),
      (910, 929), (931, 1013), (1015, 1153), (1162, 1327), (1329, 1366), (1376, 1416),
      (4256, 4293), (4295, 4295), (4301, 4301), (4304, 4346), (4349, 4351), (5024, 5109),
      (5112, 5117), (7296, 7304), (7312, 7354), (7357, 7359), (7424, 7615), (7680, 7957),
      (7960, 7965), (7968, 8005), (8008, 8013), (8016, 8023), (8025, 8025), (8027, 8027),
      (8029, 8029), (8031, 8061), (8064, 8116), (8118, 8124), (8126, 8126), (8130, 8132),
      (8134, 8140), (8144, 8147), (8150, 8155), (8160, 8172), (8178, 8180), (8182, 8188),
      (8305, 8305), (8319, 8319), (8336, 8348), (8450, 8450), (8455, 8455), (8458, 8467),
      (8469, 8469), (8473, 8477), (8484, 8484), (8486, 8486), (8488, 8488), (8490, 8493),
      (8495, 8500), (8505, 8505), (8508, 8511), (8517, 8521), (8526, 8526), (8544, 8575),
      (8579, 8580), (9398, 9449), (11264, 11492), (11499, 11502), (11506, 11507), (11520, 11557),
      (11559, 11559), (11565, 11565), (42560, 42605), (42624, 42653), (42786, 42887),
      (42891, 42894), (42896, 42954), (42960, 42961), (42963, 42963), (42965, 42969),
      (42997, 42998), (43000, 43002), (43824, 43866), (43868, 43880), (43888, 43967),
      (64256, 64262), (64275, 64279), (65313, 65338), (65345, 65370), (66560, 66639),
      (66736, 66771), (66776, 66811), (66928, 66938), (66940, 66954), (66956, 66962),
      (66964, 66965), (66967, 66977), (66979, 66993), (66995, 67001), (67003, 67004),
      (67456, 67456), (67459, 67461), (67463, 67504), (67506, 67514), (68736, 68786),
      (68800, 68850), (71840, 71903), (93760, 93823), (119808, 119892), (119894, 119964),
      (119966, 119967), (119970, 119970), (119973, 119974), (119977, 119980), (119982, 119993),
      (119995, 119995), (119997, 120003), (120005, 120069), (120071, 120074), (120077, 120084),
      (120086, 120092), (120094, 120121), (120123, 120126), (120128, 120132), (120134, 120134),
      (120138, 120144), (120146, 120485), (120488, 120512), (120514, 120538), (120540, 120570),
      (120572, 120596), (120598, 120628), (120630, 120654), (120656, 120686), (120688, 120712),
      (120714, 120744), (120746, 120770), (120772, 120779), (122624, 122633), (122635, 122654),
      (125184, 125251), (127280, 127305), (127312, 127337), (127344, 127369)]"

definition case_ignorable_table :: "(cp \<times> cp) list" where
  "case_ignorable_table =
     [(39, 39), (46, 46), (58, 58), (94, 94), (96, 96), (168, 168), (173, 173), (175, 175),
      (180, 180), (183, 184), (688, 879), (884, 885), (890, 890), (900, 901), (903, 903),
      (1155, 1161), (1369, 1369), (1375, 1375), (1425, 1469), (1471, 1471), (1473, 1474),
      (1476, 1477), (1479, 1479), (1524, 1524), (1536, 1541), (1552, 1562), (1564, 1564),
      (1600, 1600), (1611, 1631), (1648, 1648), (1750, 1757), (1759, 1768), (1770, 1773),
      (1807, 1807), (1809, 1809), (1840, 1866), (1958, 1968), (2027, 2037), (2042, 2042),
      (2045, 2045), (2070, 2093), (2137, 2139), (2184, 2184), (2192, 2193), (2200, 2207),
      (2249, 2306), (2362, 2362), (2364, 2364), (2369, 2376), (2381, 2381), (2385, 2391),
      (2402, 2403), (2417, 2417), (2433, 2433), (2492, 2492), (2497, 2500), (2509, 2509),
      (2530, 2531), (2558, 2558), (2561, 2562), (2620, 2620), (2625, 2626), (2631, 2632),
      (2635, 2637), (2641, 2641), (2672, 2673), (2677, 2677), (2689, 2690), (2748, 2748),
      (2753, 2757), (2759, 2760), (2765, 2765), (2786, 2787), (2810, 2815), (2817, 2817),
      (2876, 2876), (2879, 2879), (2881, 2884), (2893, 2893), (2901, 2902), (2914, 2915),
      (2946, 2946), (3008, 3008), (3021, 3021), (3072, 3072), (3076, 3076), (3132, 3132),
      (3134, 3136), (3142, 3144), (3146, 3149), (3157, 3158), (3170, 3171), (3201, 3201),
      (3260, 3260), (3263, 3263), (3270, 3270), (3276, 3277), (3298, 3299), (3328, 3329),
      (3387, 3388), (3393, 3396), (3405, 3405), (3426, 3427), (3457, 3457), (3530, 3530),
      (3538, 3540), (3542, 3542), (3633, 3633), (3636, 3642), (3654, 3662), (3761, 3761),
      (3764, 3772), (3782, 3782), (3784, 3789), (3864, 3865), (3893, 3893), (3895, 3895),
      (3897, 3897), (3953, 3966), (3968, 3972), (3974, 3975), (3981, 3991), (3993, 4028),
      (4038, 4038), (4141, 4144), (4146, 4151), (4153, 4154), (4157, 4158), (4184, 4185),
      (4190, 4192), (4209, 4212), (4226, 4226), (4229, 4230), (4237, 4237), (4253, 4253),
      (4348, 4348), (4957, 4959), (5906, 5908), (5938, 5939), (5970, 5971), (6002, 6003),
      (6068, 6069), (6071, 6077), (6086, 6086), (6089, 6099), (6103, 6103), (6109, 6109),
      (6155, 6159), (6211, 6211), (6277, 6278), (6313, 6313), (6432, 6434), (6439, 6440),
      (6450, 6450), (6457, 6459), (6679, 6680), (6683, 6683), (6742, 6742), (6744, 6750),
      (6752, 6752), (6754, 6754), (6757, 6764), (6771, 6780), (6783, 6783), (6823, 6823),
      (6832, 6862), (6912, 6915), (6964, 6964), (6966, 6970), (6972, 6972), (6978, 6978),
      (7019, 7027), (7040, 7041), (7074, 7077), (7080, 7081), (7083, 7085), (7142, 7142),
      (7144, 7145), (7149, 7149), (7151, 7153), (7212, 7219), (7222, 7223), (7288, 7293),
      (7376, 7378), (7380, 7392), (7394, 7400), (7405, 7405), (7412, 7412), (7416, 7417),
      (7468, 7530), (7544, 7544), (7579, 7679), (8125, 8125), (8127, 8129), (8141, 8143),
      (8157, 8159), (8173, 8175), (8189, 8190), (8203, 8207), (8216, 8217), (8228, 8228),
      (8231, 8231), (8234, 8238), (8288, 8292), (8294, 8303), (8305, 8305), (8319, 8319),
      (8336, 8348), (8400, 8432), (11388, 11389), (11503, 11505), (11631, 11631), (11647, 11647),
      (11744, 11775), (11823, 11823), (12293, 12293), (12330, 12333), (12337, 12341),
      (12347, 12347), (12441, 12446), (12540, 12542), (40981, 40981), (42232, 42237),
      (42508, 42508), (42607, 42610), (42612, 42621), (42623, 42623), (42652, 42655),
      (42736, 42737), (42752, 42785), (42864, 42864), (42888, 42890), (42994, 42996),
      (43000, 43001), (43010, 43010), (43014, 43014), (43019, 43019), (43045, 43046),
      (43052, 43052), (43204, 43205), (43232, 43249), (43263, 43263), (43302, 43309),
      (43335, 43345), (43392, 43394), (43443, 43443), (43446, 43449), (43452, 43453),
      (43471, 43471), (43493, 43494), (43561, 43566), (43569, 43570), (43573, 43574),
      (43587, 43587), (43596, 43596), (43632, 43632), (43644, 43644), (43696, 43696),
      (43698, 43700), (43703, 43704), (43710, 43711), (43713, 43713), (43741, 43741),
      (43756, 43757), (43763, 43764), (43766, 43766), (43867, 43871), (43881, 43883),
      (44005, 44005), (44008, 44008), (44013, 44013), (64286, 64286), (64434, 64450),
      (65024, 65039), (65043, 65043), (65056, 65071), (65106, 65106), (65109, 65109),
      (65279, 65279), (65287, 65287), (65294, 65294), (65306, 65306), (65342, 65342),
      (65344, 65344), (65392, 65392), (65438, 65439), (65507, 65507), (65529, 65531),
      (66045, 66045), (66272, 66272), (66422, 66426), (67456, 67461), (67463, 67504),
      (67506, 67514), (68097, 68099), (68101, 68102), (68108, 68111), (68152, 68154),
      (68159, 68159), (68325, 68326), (68900, 68903), (69291, 69292), (69446, 69456),
      (69506, 69509), (69633, 69633), (69688, 69702), (69744, 69744), (69747, 69748),
      (69759, 69761), (69811, 69814), (69817, 69818), (69821, 69821), (69826, 69826),
      (69837, 69837), (69888, 69890), (69927, 69931), (69933, 69940), (70003, 70003),
      (70016, 70017), (70070, 70078), (70089, 70092), (70095, 70095), (70191, 70193),
      (70196, 70196), (70198, 70199), (70206, 70206), (70367, 70367), (70371, 70378),
      (70400, 70401), (70459, 70460), (70464, 70464), (70502, 70508), (70512, 70516),
      (70712, 70719), (70722, 70724), (70726, 70726), (70750, 70750), (70835, 70840),
      (70842, 70842), (70847, 70848), (70850, 70851), (71090, 71093), (71100, 71101),
      (71103, 71104), (71132, 71133), (71219, 71226), (71229, 71229), (71231, 71232),
      (71339, 71339), (71341, 71341), (71344, 71349), (71351, 71351), (71453, 71455),
      (71458, 71461), (71463, 71467), (71727, 71735), (71737, 71738), (71995, 71996),
      (71998, 71998), (72003, 72003), (72148, 72151), (72154, 72155), (72160, 72160),
      (72193, 72202), (72243, 72248), (72251, 72254), (72263, 72263), (72273, 72278),
      (72281, 72283), (72330, 72342), (72344, 72345), (72752, 72758), (72760, 72765),
      (72767, 72767), (72850, 72871), (72874, 72880), (72882, 72883), (72885, 72886),
      (73009, 73014), (73018, 73018), (73020, 73021), (73023, 73029), (73031, 73031),
      (73104, 73105), (73109, 73109), (73111, 73111), (73459, 73460), (78896, 78904),
      (92912, 92916), (92976, 92982), (92992, 92995), (94031, 94031), (94095, 94111),
      (94176, 94177), (94179, 94180), (110576, 110579), (110581, 110587), (110589, 110590),
      (113821, 113822), (113824, 113827), (118528, 118573), (118576, 118598), (119143, 119145),
      (119155, 119170), (119173, 119179), (119210, 119213), (119362, 119364), (121344, 121398),
      (121403, 121452), (121461, 121461), (121476, 121476), (121499, 121503), (121505, 121519),
      (122880, 122886), (122888, 122904), (122907, 122913), (122915, 122916), (122918, 122922),
      (123184, 123197), (123566, 123566), (123628, 123631), (125136, 125142), (125252, 125259),
      (127995, 127999), (917505, 917505), (917536, 917631), (917760, 917999)]"

text \<open>
  The table \<open>_EXTRA_CASES\<close> of \<open>re\<close>, from U+0100 on: to a lower-case code point, the other
  lower-case code points that have the same upper case.
\<close>

definition casefix :: "(cp \<times> cp list) list" where
  "casefix =
     [(305, [105]), (383, [115]), (837, [953, 8126]), (912, [8147]), (944, [8163]), (946, [976]),
      (949, [1013]), (952, [977]), (953, [837, 8126]), (954, [1008]), (956, [181]), (960, [982]),
      (961, [1009]), (962, [963]), (963, [962]), (966, [981]), (976, [946]), (977, [952]),
      (981, [966]), (982, [960]), (1008, [954]), (1009, [961]), (1013, [949]), (1074, [7296]),
      (1076, [7297]), (1086, [7298]), (1089, [7299]), (1090, [7300, 7301]), (1098, [7302]),
      (1123, [7303]), (7296, [1074]), (7297, [1076]), (7298, [1086]), (7299, [1089]),
      (7300, [1090, 7301]), (7301, [1090, 7300]), (7302, [1098]), (7303, [1123]),
      (7304, [42571]), (7777, [7835]), (7835, [7777]), (8126, [837, 953]), (8147, [912]),
      (8163, [944]), (42571, [7304]), (64261, [64262]), (64262, [64261])]"

subsection \<open>The properties of a character\<close>

text \<open>
  \<open>is_space\<close> is \<open>str.isspace\<close>, the white space that \<open>str.strip\<close> removes and that \<open>\s\<close>
  matches; \<open>is_digit\<close> is the class \<open>\d\<close> and \<open>digit_value\<close> the value \<open>float\<close> and \<open>int\<close>
  give a digit; \<open>is_word\<close> is the class \<open>\w\<close>.
\<close>

definition is_space :: "cp \<Rightarrow> bool" where
  "is_space c = ((9 \<le> c \<and> c \<le> 13) \<or> (28 \<le> c \<and> c \<le> 32) \<or> c = 133 \<or> c = 160
     \<or> c = 5760 \<or> (8192 \<le> c \<and> c \<le> 8202) \<or> c = 8232 \<or> c = 8233 \<or> c = 8239
     \<or> c = 8287 \<or> c = 12288)"

definition is_digit :: "cp \<Rightarrow> bool" where
  "is_digit c =
     (if c < 256 then 48 \<le> c \<and> c \<le> 57
      else list_ex (\<lambda>z. z \<le> c \<and> c \<le> z + 9) decimal_zeros)"

definition digit_value :: "cp \<Rightarrow> nat" where
  "digit_value c =
     (if c < 256 then c - 48
      else case find (\<lambda>z. z \<le> c \<and> c \<le> z + 9) decimal_zeros of
             None \<Rightarrow> 0 | Some z \<Rightarrow> c - z)"

definition is_word :: "cp \<Rightarrow> bool" where
  "is_word c =
     (if c < 256
      then (48 \<le> c \<and> c \<le> 57) \<or> (65 \<le> c \<and> c \<le> 90) \<or> c = 95 \<or> (97 \<le> c \<and> c \<le> 122)
        \<or> c = 170 \<or> c = 178 \<or> c = 179 \<or> c = 181 \<or> c = 185 \<or> c = 186
        \<or> (188 \<le> c \<and> c \<le> 190) \<or> (192 \<le> c \<and> c \<le> 214) \<or> (216 \<le> c \<and> c \<le> 246)
        \<or> (248 \<le> c \<and> c \<le> 255)
      else in_ranges c word_table)"

text \<open>
  \<open>tolower\<close> is the simple lower case of a code point, which \<open>re\<close> compares under
  \<open>re.IGNORECASE\<close>; \<open>lower_cp\<close> is its full lower case, which \<open>str.lower\<close> writes: the two
  differ on the capital I with a dot above (U+0130) only, whose lower case is an \<open>i\<close> and a
  combining dot.
\<close>

definition tolower :: "cp \<Rightarrow> cp" where
  "tolower c =
     (if c < 256
      then (if (65 \<le> c \<and> c \<le> 90) \<or> (192 \<le> c \<and> c \<le> 222 \<and> c \<noteq> 215) then c + 32 else c)
      else mapped lower_table c)"

definition lower_cp :: "cp \<Rightarrow> ustring" where
  "lower_cp c = (if c = 304 then [105, 775] else [tolower c])"

text \<open>The title-case form of a code point: \<open>str.capitalize\<close> applies it to the first one.\<close>

definition title_cp :: "cp \<Rightarrow> ustring" where
  "title_cp c =
     (if c < 256
      then (if (97 \<le> c \<and> c \<le> 122) \<or> (224 \<le> c \<and> c \<le> 254 \<and> c \<noteq> 247) then [c - 32]
            else if c = 181 then [924]
            else if c = 223 then [83, 115]
            else if c = 255 then [376]
            else [c])
      else case map_of title_special c of
             Some t \<Rightarrow> t
           | None \<Rightarrow> [mapped title_table c])"

definition cased :: "cp \<Rightarrow> bool" where
  "cased c = in_ranges c cased_table"

definition case_ignorable :: "cp \<Rightarrow> bool" where
  "case_ignorable c = in_ranges c case_ignorable_table"

text \<open>
  The lower-case code points that \<open>re.IGNORECASE\<close> takes for the lower-case code point
  \<open>lo\<close>, besides \<open>lo\<close> itself.
\<close>

definition fixes_of :: "cp \<Rightarrow> cp list" where
  "fixes_of lo =
     (if lo < 256
      then (if lo = 105 then [305] else if lo = 115 then [383] else if lo = 181 then [956] else [])
      else case map_of casefix lo of None \<Rightarrow> [] | Some l \<Rightarrow> l)"

subsection \<open>The methods of \<open>str\<close>\<close>

text \<open>
  \<open>str.lower\<close> writes the lower case of each character. The lower case of a capital sigma
  (U+03A3) is the final sigma (U+03C2) where the sigma ends a word, and the small sigma
  (U+03C3) elsewhere: it ends a word when a cased character comes before it, case-ignorable
  characters apart, and none comes after it, case-ignorable characters apart.
  \<open>sigma_before\<close> reads the text before the sigma from the sigma backwards, \<open>sigma_after\<close>
  the text after it; \<open>lower_from pre s\<close> is the lower case of \<open>s\<close> where \<open>s\<close> follows the
  characters of \<open>pre\<close>, the nearest first.
\<close>

fun sigma_before :: "ustring \<Rightarrow> bool" where
  "sigma_before [] = False"
| "sigma_before (x # xs) = (if case_ignorable x then sigma_before xs else cased x)"

fun sigma_after :: "ustring \<Rightarrow> bool" where
  "sigma_after [] = True"
| "sigma_after (x # xs) = (if case_ignorable x then sigma_after xs else \<not> cased x)"

fun lower_from :: "ustring \<Rightarrow> ustring \<Rightarrow> ustring" where
  "lower_from pre [] = []"
| "lower_from pre (c # cs) =
     (if c = 931 then [if sigma_before pre \<and> sigma_after cs then 962 else 963] else lower_cp c)
       @ lower_from (c # pre) cs"

definition lower :: "ustring \<Rightarrow> ustring" where
  "lower s = lower_from [] s"

text \<open>
  \<open>str.capitalize\<close>: the title case of the first character, then the lower case of the
  others.
\<close>

definition capitalize :: "ustring \<Rightarrow> ustring" where
  "capitalize s = (case s of [] \<Rightarrow> [] | c # cs \<Rightarrow> title_cp c @ lower_from [c] cs)"

definition strip :: "ustring \<Rightarrow> ustring" where
  "strip s = rev (dropWhile is_space (rev (dropWhile is_space s)))"

text \<open>\<open>needle in hay\<close>.\<close>

fun contient :: "ustring \<Rightarrow> ustring \<Rightarrow> bool" where
  "contient needle [] = (needle = [])"
| "contient needle (x # xs) = (prefix needle (x # xs) \<or> contient needle xs)"

text \<open>
  \<open>s.replace(old, new)\<close> for a non-empty \<open>old\<close>: the occurrences of \<open>old\<close> are replaced
  from the left, without overlap. Where \<open>old\<close> starts the text \<open>x # xs\<close>, the scan goes on
  after it, that is \<open>length old - 1\<close> characters into \<open>xs\<close>.
\<close>

fun replace :: "ustring \<Rightarrow> ustring \<Rightarrow> ustring \<Rightarrow> ustring" where
  "replace old new [] = []"
| "replace old new (x # xs) =
     (if old \<noteq> [] \<and> prefix old (x # xs)
      then new @ replace old new (drop (length old - 1) xs)
      else x # replace old new xs)"

section \<open>The regular expressions of the \<open>re\<close> module\<close>

text \<open>
  The fragment of the pattern language the two source files use. A repetition applies to
  a character class, as in every pattern of the source. \<open>Plus\<close> and \<open>Star\<close> are the
  greedy \<open>+\<close> and \<open>*\<close>, \<open>LazyStar\<close> is \<open>*?\<close>, \<open>Opt\<close> the greedy \<open>?\<close>, \<open>WordB\<close> is \<open>\b\<close>
  and \<open>Eol\<close> is \<open>$\<close> (the end of the text, or the place before a final newline). \<open>Eps\<close> is the
  empty pattern.
\<close>

datatype regex =
    Eps
  | Lit cp
  | Cls "cp \<Rightarrow> bool"
  | Seq regex regex
  | Alt regex regex
  | Opt regex
  | Plus "cp \<Rightarrow> bool"
  | Star "cp \<Rightarrow> bool"
  | LazyStar "cp \<Rightarrow> bool"
  | WordB
  | Eol

text \<open>
  A position in the subject: the character before it (none at the start) and the text
  that follows it.
\<close>

type_synonym pos = "cp option \<times> ustring"

text \<open>
  The positions reached from \<open>(p, s)\<close> by reading 0, 1, 2, ... characters of a class.
\<close>

fun run :: "(cp \<Rightarrow> bool) \<Rightarrow> cp option \<Rightarrow> ustring \<Rightarrow> pos list" where
  "run P p [] = [(p, [])]"
| "run P p (x # xs) = (p, x # xs) # (if P x then run P (Some x) xs else [])"

definition word_at :: "cp option \<Rightarrow> bool" where
  "word_at p = (case p of None \<Rightarrow> False | Some c \<Rightarrow> is_word c)"

definition next_cp :: "ustring \<Rightarrow> cp option" where
  "next_cp s = (case s of [] \<Rightarrow> None | x # _ \<Rightarrow> Some x)"

text \<open>
  \<open>ends ic r q\<close> lists the positions at which a match of \<open>r\<close> that starts at \<open>q\<close> can
  end, in the order in which the backtracking matcher of \<open>re\<close> tries them: the first
  alternative before the second, the longest run of a greedy repetition first, the
  shortest of a lazy one first. The match \<open>re\<close> reports is the head of the list. \<open>ic\<close> is
  the flag \<open>re.IGNORECASE\<close>: under it a literal matches the characters whose simple lower
  case is that of the literal, or one of the code points \<open>re\<close> takes for it.
\<close>

fun ends :: "bool \<Rightarrow> regex \<Rightarrow> pos \<Rightarrow> pos list" where
  "ends ic Eps q = [q]"
| "ends ic (Lit c) (p, s) =
     (case s of [] \<Rightarrow> []
      | x # xs \<Rightarrow>
          if x = c \<or> (ic \<and> tolower x \<in> set (tolower c # fixes_of (tolower c)))
          then [(Some x, xs)] else [])"
| "ends ic (Cls P) (p, s) =
     (case s of [] \<Rightarrow> [] | x # xs \<Rightarrow> if P x then [(Some x, xs)] else [])"
| "ends ic (Seq a b) q = concat (map (ends ic b) (ends ic a q))"
| "ends ic (Alt a b) q = ends ic a q @ ends ic b q"
| "ends ic (Opt a) q = ends ic a q @ [q]"
| "ends ic (Plus P) (p, s) = rev (tl (run P p s))"
| "ends ic (Star P) (p, s) = rev (run P p s)"
| "ends ic (LazyStar P) (p, s) = run P p s"
| "ends ic WordB (p, s) = (if word_at p \<noteq> word_at (next_cp s) then [(p, s)] else [])"
| "ends ic Eol (p, s) = (if s = [] \<or> s = [10] then [(p, s)] else [])"

text \<open>A pattern that is a string of literal characters.\<close>

fun lits :: "ustring \<Rightarrow> regex" where
  "lits [] = Eps"
| "lits [c] = Lit c"
| "lits (c # cs) = Seq (Lit c) (lits cs)"

text \<open>
  \<open>re.sub(r, repl, s)\<close>, from the position \<open>(p, s)\<close>: the leftmost match is replaced and
  the scan goes on where it ended. After an empty match the next character is copied; no
  pattern of the source has an empty match (\<open>motifs_non_vides\<close> below).
\<close>

fun sub_from :: "bool \<Rightarrow> regex \<Rightarrow> ustring \<Rightarrow> cp option \<Rightarrow> ustring \<Rightarrow> ustring" where
  "sub_from ic r repl p [] = (if ends ic r (p, []) = [] then [] else repl)"
| "sub_from ic r repl p (x # xs) =
     (case ends ic r (p, x # xs) of
        [] \<Rightarrow> x # sub_from ic r repl (Some x) xs
      | (p', s') # _ \<Rightarrow>
          if length s' \<le> length xs
          then repl @ sub_from ic r repl p' s'
          else repl @ x # sub_from ic r repl (Some x) xs)"

definition re_sub :: "bool \<Rightarrow> regex \<Rightarrow> ustring \<Rightarrow> ustring \<Rightarrow> ustring" where
  "re_sub ic r repl s = sub_from ic r repl None s"

text \<open>\<open>re.findall(r, s)\<close> for a pattern whose only group is the whole pattern.\<close>

fun findall_from :: "regex \<Rightarrow> cp option \<Rightarrow> ustring \<Rightarrow> ustring list" where
  "findall_from r p [] = (if ends False r (p, []) = [] then [] else [[]])"
| "findall_from r p (x # xs) =
     (case ends False r (p, x # xs) of
        [] \<Rightarrow> findall_from r (Some x) xs
      | (p', s') # _ \<Rightarrow>
          if length s' \<le> length xs
          then take (Suc (length xs) - length s') (x # xs) # findall_from r p' s'
          else [] # findall_from r (Some x) xs)"

definition findall :: "regex \<Rightarrow> ustring \<Rightarrow> ustring list" where
  "findall r s = findall_from r None s"

text \<open>The least number of characters that a match of a pattern reads.\<close>

fun min_len :: "regex \<Rightarrow> nat" where
  "min_len Eps = 0"
| "min_len (Lit c) = 1"
| "min_len (Cls P) = 1"
| "min_len (Seq a b) = min_len a + min_len b"
| "min_len (Alt a b) = min (min_len a) (min_len b)"
| "min_len (Opt a) = 0"
| "min_len (Plus P) = 1"
| "min_len (Star P) = 0"
| "min_len (LazyStar P) = 0"
| "min_len WordB = 0"
| "min_len Eol = 0"

section \<open>traitement.py\<close>

text \<open>
  A cell of the table \<open>pandas\<close> loads: a string, a number (of a column read as numeric) or
  the missing value.

  Python's floats are read as exact rationals: a number is the value of its decimal
  digits, sums, products and quotients are exact, and \<open>round\<close> rounds the exact value. The
  binary rounding of each operation is left out.
\<close>

datatype cell = Str ustring | Num rat | NaN

text \<open>\<open>float(n)\<close> for a token \<open>n\<close> of digits, with an optional point and more digits.\<close>

definition chiffres :: "ustring \<Rightarrow> nat" where
  "chiffres ds = foldl (\<lambda>a c. 10 * a + digit_value c) 0 ds"

definition float_of :: "ustring \<Rightarrow> rat" where
  "float_of t =
     (let i = takeWhile (\<lambda>c. c \<noteq> 46) t; f = drop (Suc (length i)) t
      in of_nat (chiffres i) + of_nat (chiffres f) / 10 ^ length f)"

text \<open>\<open>round(x, 2)\<close>: the nearest multiple of 0.01, a tie going to the even one.\<close>

definition round2 :: "rat \<Rightarrow> rat" where
  "round2 x =
     (let y = x * 100; f = \<lfloor>y\<rfloor>; d = y - of_int f
      in of_int (if d < 1 / 2 then f else if 1 / 2 < d then f + 1
                 else if even f then f else f + 1) / 100)"

text \<open>The pattern \<open>(\d+(?:\.\d+)?)\<close>.\<close>

definition motif_nombre :: regex where
  "motif_nombre = Seq (Plus is_digit) (Opt (Seq (Lit 46) (Plus is_digit)))"

definition clean_txt :: "ustring \<Rightarrow> ustring" where
  "clean_txt t =
     replace (u ''k'') (u ''000'')
       (replace [160] [] (replace [8239] [] (replace (u '' '') [] (lower t))))"

definition valeur :: "ustring list \<Rightarrow> rat" where
  "valeur nombres = sum_list (map float_of nombres) / of_nat (length nombres)"

definition multiplicateur :: "ustring \<Rightarrow> rat \<Rightarrow> rat" where
  "multiplicateur txt v =
     (if contient (u ''mois'') txt then 12
      else if contient (u ''heure'') txt then 15167 / 100 * 12
      else if contient (u ''jour'') txt then 218
      else if 1200 \<le> v \<and> v \<le> 12000 then 12
      else 1)"

definition nettoyer_salaire :: "cell \<Rightarrow> rat option" where
  "nettoyer_salaire texte_salaire =
     (case texte_salaire of
        Str t \<Rightarrow>
          if contient (u ''non affich'' @ [233]) (lower t) then None
          else
            let nombres = findall motif_nombre (clean_txt t)
            in if nombres = [] then None
               else
                 let salaire_annuel =
                       valeur nombres * multiplicateur (clean_txt t) (valeur nombres)
                 in if salaire_annuel < 14000 \<or> salaire_annuel > 200000 then None
                    else Some (round2 salaire_annuel)
      | _ \<Rightarrow> None)"

text \<open>
  The value of \<open>titre_clean\<close> to which \<open>simplifier_titre\<close> applies \<open>capitalize\<close>: the hour
  mentions are removed, each pattern of \<open>mots_a_supprimer\<close> is replaced by a space
  (ignoring case), hyphens and underscores become spaces, each run of white space becomes
  one space and the ends are stripped.
\<close>

definition dot :: "cp \<Rightarrow> bool" where
  "dot c = (c \<noteq> 10)"

text \<open>The pattern \<open>\d+(?:[\.,]\d+)?\s?[hH]\<close>.\<close>

definition motif_horaire :: regex where
  "motif_horaire =
     Seq (Plus is_digit)
       (Seq (Opt (Seq (Cls (\<lambda>c. c = 46 \<or> c = 44)) (Plus is_digit)))
          (Seq (Opt (Cls is_space)) (Cls (\<lambda>c. c = 104 \<or> c = 72))))"

definition mots_a_supprimer :: "regex list" where
  "mots_a_supprimer =
     [Seq (lits (u ''temps'')) (Seq (Opt (Cls is_space)) (lits (u ''plein''))),
      Seq (lits (u ''temps'')) (Seq (Opt (Cls is_space)) (lits (u ''partiel''))),
      Seq WordB (Seq (lits (u ''CDI'')) WordB),
      Seq WordB (Seq (lits (u ''CDD'')) WordB),
      Seq WordB (Seq (lits (u ''Int'' @ [233] @ u ''rim'')) WordB),
      Seq WordB (Seq (lits (u ''Stage'')) WordB),
      Seq WordB (Seq (lits (u ''Alternance'')) WordB),
      Seq WordB (Seq (lits (u ''H/F'')) WordB),
      Seq WordB (Seq (lits (u ''F/H'')) WordB),
      Seq (Lit 40) (Seq (LazyStar dot) (Lit 41)),
      Seq (Cls is_space) (Seq (Lit 45) (Cls is_space)),
      Lit 124]"

definition titre_clean :: "ustring \<Rightarrow> ustring" where
  "titre_clean titre_brut =
     strip (re_sub False (Plus is_space) (u '' '')
       (re_sub False (Cls (\<lambda>c. c = 45 \<or> c = 95)) (u '' '')
         (foldl (\<lambda>t motif. re_sub True motif (u '' '') t)
            (re_sub False motif_horaire [] titre_brut) mots_a_supprimer)))"

definition simplifier_titre :: "cell \<Rightarrow> ustring" where
  "simplifier_titre titre_brut =
     (case titre_brut of Str t \<Rightarrow> capitalize (titre_clean t) | _ \<Rightarrow> u ''Inconnu'')"

text \<open>
  \<open>s.rsplit(sep, 1)\<close>: the text is searched for \<open>sep\<close> from its right end; \<open>rsplit_at\<close> looks
  at the index \<open>i\<close> and then at the smaller ones.
\<close>

fun rsplit_at :: "ustring \<Rightarrow> ustring \<Rightarrow> nat \<Rightarrow> ustring list" where
  "rsplit_at sep s 0 = (if prefix sep s then [[], drop (length sep) s] else [s])"
| "rsplit_at sep s (Suc i) =
     (if prefix sep (drop (Suc i) s)
      then [take (Suc i) s, drop (Suc i + length sep) s]
      else rsplit_at sep s i)"

definition rsplit1 :: "ustring \<Rightarrow> ustring \<Rightarrow> ustring list" where
  "rsplit1 sep s = (if length s < length sep then [s] else rsplit_at sep s (length s - length sep))"

text \<open>
  The pattern \<open>\s\d+(?:er|e|\<close>e-grave\<open>me)?$\<close>, and first its group \<open>(?:er|e|\<close>e-grave\<open>me)\<close>.
\<close>

definition ordinal :: regex where
  "ordinal = Alt (lits (u ''er'')) (Alt (Lit 101) (lits ([232] @ u ''me'')))"

definition motif_arrondissement :: regex where
  "motif_arrondissement = Seq (Cls is_space) (Seq (Plus is_digit) (Seq (Opt ordinal) Eol))"

definition separer_localisation :: "cell \<Rightarrow> ustring \<times> ustring" where
  "separer_localisation loc_brute =
     (case loc_brute of
        Str s \<Rightarrow>
          let (ville, dept) =
                (case rsplit1 (u '' - '') s of
                   [a, b] \<Rightarrow> (strip a, strip b)
                 | _ \<Rightarrow> (strip s, u ''France''))
          in (re_sub False motif_arrondissement [] ville, dept)
      | _ \<Rightarrow> (u ''Inconnu'', u ''Inconnu''))"

text \<open>
  A row of the raw table, with the six columns \<open>scraping.py\<close> writes, and a row of the clean
  table, with the columns \<open>cols\<close>.
\<close>

record offre =
  Titre :: cell
  Entreprise :: cell
  Localisation :: cell
  Contrat :: cell
  Salaire :: cell
  Lien :: cell

record offre_clean =
  Titre_Simplifie :: ustring
  Entreprise :: cell
  Ville :: ustring
  Departement :: ustring
  Contrat :: cell
  Salaire_Annuel :: "rat option"

text \<open>Steps 2 and 3 of \<open>lancer_traitement_final\<close> on one row: the new columns, then \<open>cols\<close>.\<close>

definition transformer :: "offre \<Rightarrow> offre_clean" where
  "transformer r =
     (let (ville, dept) = separer_localisation (Localisation r)
      in \<lparr>Titre_Simplifie = simplifier_titre (Titre r),
          Entreprise = offre.Entreprise r,
          Ville = ville,
          Departement = dept,
          Contrat = offre.Contrat r,
          Salaire_Annuel = nettoyer_salaire (Salaire r)\<rparr>)"

text \<open>
  \<open>DataFrame.drop_duplicates(subset=...)\<close>, which keeps the first row of each key: a row is
  dropped when its key has been seen in an earlier row.
\<close>

fun drop_duplicates_from :: "('a \<Rightarrow> 'k) \<Rightarrow> 'k list \<Rightarrow> 'a list \<Rightarrow> 'a list" where
  "drop_duplicates_from cols seen [] = []"
| "drop_duplicates_from cols seen (x # xs) =
     (if cols x \<in> set seen then drop_duplicates_from cols seen xs
      else x # drop_duplicates_from cols (cols x # seen) xs)"

definition drop_duplicates :: "('a \<Rightarrow> 'k) \<Rightarrow> 'a list \<Rightarrow> 'a list" where
  "drop_duplicates cols df = drop_duplicates_from cols [] df"

definition cle :: "offre_clean \<Rightarrow> ustring \<times> cell \<times> ustring" where
  "cle r = (Titre_Simplifie r, offre_clean.Entreprise r, Ville r)"

text \<open>
  \<open>lancer_traitement_final\<close>: the argument is the table read from \<open>FICHIER_ENTREE\<close>
  (\<open>None\<close> when the file does not exist), the result the table written to
  \<open>FICHIER_SORTIE\<close> (\<open>None\<close> when nothing is written).
\<close>

definition lancer_traitement_final :: "offre list option \<Rightarrow> offre_clean list option" where
  "lancer_traitement_final fichier =
     (case fichier of
        None \<Rightarrow> None
      | Some df \<Rightarrow> Some (drop_duplicates cle (map transformer df)))"

section \<open>scraping.py\<close>

definition OBJECTIF :: nat where
  "OBJECTIF = 1000"

text \<open>\<open>re.search(r, s)\<close>: the text of the leftmost match.\<close>

fun search_from :: "regex \<Rightarrow> cp option \<Rightarrow> ustring \<Rightarrow> ustring option" where
  "search_from r p [] = (if ends False r (p, []) = [] then None else Some [])"
| "search_from r p (x # xs) =
     (case ends False r (p, x # xs) of
        [] \<Rightarrow> search_from r (Some x) xs
      | (p', s') # _ \<Rightarrow> Some (take (Suc (length xs) - length s') (x # xs)))"

definition re_search :: "regex \<Rightarrow> ustring \<Rightarrow> ustring option" where
  "re_search r s = search_from r None s"

text \<open>\<open>s.split('\n')\<close>.\<close>

fun split_nl :: "ustring \<Rightarrow> ustring list" where
  "split_nl [] = [[]]"
| "split_nl (x # xs) =
     (if x = 10 then [] # split_nl xs
      else (case split_nl xs of [] \<Rightarrow> [[x]] | l # ls \<Rightarrow> (x # l) # ls))"

text \<open>The pattern \<open>([0-9\s]+\<close>euro\<open>.*)\<close>.\<close>

definition motif_salaire :: regex where
  "motif_salaire =
     Seq (Plus (\<lambda>c. (48 \<le> c \<and> c \<le> 57) \<or> is_space c)) (Seq (Lit 8364) (Star dot))"

text \<open>
  What the extraction reads of a card: its \<open>h3\<close> element (none when \<open>find_element\<close>
  raises), the text of the elements marked \<open>localisationCard\<close> and \<open>contractCard\<close> (none
  when absent), its own text, and the \<open>href\<close> of its first link (none when there is no
  link, \<open>Some None\<close> when the link has no such attribute).
\<close>

record element_h3 =
  ps :: "ustring list"
  h3_textContent :: ustring

record carte =
  h3 :: "element_h3 option"
  localisationCard :: "ustring option"
  contractCard :: "ustring option"
  textContent :: ustring
  href :: "ustring option option"

text \<open>
  The body of the loop over the cards, lines 80 to 148, up to the record it appends:
  \<open>None\<close> when the card adds nothing (an exception, or an empty title).
\<close>

definition extraire :: "carte \<Rightarrow> offre option" where
  "extraire c =
     (case h3 c of
        None \<Rightarrow> None
      | Some h \<Rightarrow>
          let (titre, entreprise) =
                (case ps h of
                   p0 # p1 # _ \<Rightarrow> (strip p0, strip p1)
                 | _ \<Rightarrow>
                     (case split_nl (strip (h3_textContent h)) of
                        [] \<Rightarrow> ([], u ''Inconnu'')
                      | [l0] \<Rightarrow> (strip l0, u ''Inconnu'')
                      | l0 # l1 # _ \<Rightarrow> (strip l0, strip l1)))
          in if titre = [] then None
             else
               let loc = (case localisationCard c of Some t \<Rightarrow> strip t | None \<Rightarrow> u ''France'');
                   contrat =
                     (case contractCard c of
                        Some t \<Rightarrow> strip t
                      | None \<Rightarrow> u ''Non sp'' @ [233] @ u ''cifi'' @ [233]);
                   carte_text = textContent c;
                   non_affiche = u ''Non affich'' @ [233];
                   salaire =
                     (if contient [8364] carte_text
                      then (case re_search motif_salaire carte_text of
                              Some m \<Rightarrow> strip m
                            | None \<Rightarrow>
                                (case find (contient [8364]) (split_nl carte_text) of
                                   Some line \<Rightarrow> strip line
                                 | None \<Rightarrow> non_affiche))
                      else non_affiche);
                   lien =
                     (case href c of
                        None \<Rightarrow> Str (u ''Non disponible'')
                      | Some None \<Rightarrow> NaN
                      | Some (Some l) \<Rightarrow> Str l)
               in Some \<lparr>Titre = Str titre, Entreprise = Str entreprise, Localisation = Str loc,
                        Contrat = Str contrat, Salaire = Str salaire, Lien = lien\<rparr>)"

text \<open>The loop \<open>for carte in cartes\<close>, with its \<open>break\<close> once the target is reached.\<close>

fun parcourir :: "carte list \<Rightarrow> offre list \<Rightarrow> offre list" where
  "parcourir [] donnees = donnees"
| "parcourir (carte # cartes) donnees =
     (case extraire carte of
        None \<Rightarrow> parcourir cartes donnees
      | Some r \<Rightarrow>
          if length (donnees @ [r]) \<ge> OBJECTIF then donnees @ [r]
          else parcourir cartes (donnees @ [r]))"

text \<open>
  The browser, as the run meets it: whether each of the two ways of starting Chrome
  succeeds, whether \<open>driver.get\<close> of the page \<open>p\<close> succeeds (the page 1 is \<open>url_base\<close>), and
  the cards \<open>find_elements\<close> returns on the page \<open>p\<close> (none when it raises).
\<close>

record navigateur =
  chrome_ok :: bool
  service_ok :: bool
  get_ok :: "nat \<Rightarrow> bool"
  serpCards :: "nat \<Rightarrow> carte list option"

text \<open>
  What a run does, in order: the session is opened (\<open>webdriver.Chrome\<close>), a page is
  requested (\<open>driver.get\<close>), the run sleeps (\<open>time.sleep\<close>), the cookie banner is looked
  for, the cards of a page are read (\<open>find_elements\<close>), the session is closed
  (\<open>driver.quit\<close>) and the file is written (\<open>to_csv\<close>, with the number of rows).
\<close>

datatype event = Session | Get nat | Pause | Cookies | Cartes nat | Quit | Export nat

datatype issue = Termine | Exception

text \<open>
  The loop \<open>while len(donnees) < OBJECTIF\<close>. It need not end (a source that always has
  cards of which none gives a record): the first argument bounds the number of pages, and
  the result is \<open>None\<close> when the bound is reached.
\<close>

fun boucle ::
  "nat \<Rightarrow> navigateur \<Rightarrow> nat \<Rightarrow> offre list \<Rightarrow> event list \<Rightarrow> (issue \<times> offre list \<times> event list) option"
where
  "boucle 0 nav page donnees journal = None"
| "boucle (Suc k) nav page donnees journal =
     (if length donnees < OBJECTIF
      then (case serpCards nav page of
              None \<Rightarrow> Some (Exception, donnees, journal @ [Cartes page])
            | Some cartes \<Rightarrow>
                if cartes = [] then Some (Termine, donnees, journal @ [Cartes page])
                else
                  if get_ok nav (page + 1)
                  then boucle k nav (page + 1) (parcourir cartes donnees)
                         (journal @ [Cartes page, Get (page + 1), Pause])
                  else Some (Exception, parcourir cartes donnees,
                             journal @ [Cartes page, Get (page + 1)]))
      else Some (Termine, donnees, journal))"

text \<open>
  \<open>lancer_scraping_france\<close>: how the run ends, the records collected and what the run
  did. The first \<open>driver.get\<close> stands before the \<open>try\<close> whose \<open>finally\<close> closes the session.
\<close>

definition lancer_scraping_france ::
  "nat \<Rightarrow> navigateur \<Rightarrow> (issue \<times> offre list \<times> event list) option"
where
  "lancer_scraping_france k nav =
     (if \<not> chrome_ok nav \<and> \<not> service_ok nav then Some (Exception, [], [])
      else if \<not> get_ok nav 1 then Some (Exception, [], [Session, Get 1])
      else (case boucle k nav 1 [] [Session, Get 1, Pause, Cookies] of
              None \<Rightarrow> None
            | Some (Exception, donnees, journal) \<Rightarrow> Some (Exception, donnees, journal @ [Quit])
            | Some (Termine, donnees, journal) \<Rightarrow>
                Some (Termine, donnees,
                      journal @ [Quit] @ (if donnees = [] then [] else [Export (length donnees)]))))"

section \<open>Reference definitions and example data\<close>

text \<open>
  The transform that capitalises the first character and leaves the others as they are,
  to be compared with what \<open>simplifier_titre\<close> does.
\<close>

definition premiere_majuscule :: "ustring \<Rightarrow> ustring" where
  "premiere_majuscule s = (case s of [] \<Rightarrow> [] | c # cs \<Rightarrow> title_cp c @ cs)"

text \<open>
  The letters that have a lower case other than themselves, that is the capital and the
  title-case letters: \<open>A\<close> to \<open>Z\<close>, the capitals of Latin-1 and, from U+0100 on, the code
  points that a rule of the lower-case table holds (the capital ligature \<open>OE\<close>, the capitals
  of Greek and of Cyrillic, and so on).
\<close>

definition majuscule :: "cp \<Rightarrow> bool" where
  "majuscule c =
     (if c < 256 then (65 \<le> c \<and> c \<le> 90) \<or> (192 \<le> c \<and> c \<le> 214) \<or> (216 \<le> c \<and> c \<le> 222)
      else list_ex (in_rule c) lower_table)"

text \<open>
  The progression \<open>(a, b, s)\<close> is made of \<open>a\<close>, \<open>a + s\<close>, ... up to \<open>b\<close>. \<open>majuscules\<close> lists
  the progressions of the letters above, \<open>minuscules\<close> those of their lower cases; \<open>apart\<close>
  is a test that two progressions have no common point: one ends before the other starts,
  or they hold numbers of different parity.
\<close>

type_synonym progression = "nat \<times> nat \<times> nat"

definition in_prog :: "nat \<Rightarrow> progression \<Rightarrow> bool" where
  "in_prog x d = (case d of (a, b, s) \<Rightarrow> a \<le> x \<and> x \<le> b \<and> (x - a) mod s = 0)"

definition apart :: "progression \<Rightarrow> progression \<Rightarrow> bool" where
  "apart d e =
     (case d of (a, b, s) \<Rightarrow> case e of (a', b', s') \<Rightarrow>
        if b < a' then True else if b' < a then True
        else (s = 2 \<or> a = b) \<and> (s' = 2 \<or> a' = b') \<and> odd (a + a'))"

definition majuscules :: "progression list" where
  "majuscules =
     (65, 90, 1) # (192, 214, 1) # (216, 222, 1)
       # map (\<lambda>(lo, hi, st, t). (lo, hi, st)) lower_table"

definition minuscules :: "progression list" where
  "minuscules = map (\<lambda>(lo, hi, st, t). (t, t + (hi - lo), st)) lower_table"

text \<open>
  An arrondissement suffix, as the specification words it: a white space, digits, and then
  nothing, \<open>er\<close>, \<open>e\<close> or \<open>\<close>e-grave\<open>me\<close>.
\<close>

definition suffixe_arrondissement :: "ustring \<Rightarrow> bool" where
  "suffixe_arrondissement t =
     (case t of
        [] \<Rightarrow> False
      | w # rest \<Rightarrow>
          is_space w \<and> takeWhile is_digit rest \<noteq> []
          \<and> dropWhile is_digit rest \<in> set [[], u ''er'', u ''e'', [232] @ u ''me''])"

text \<open>
  The decimal rendering of a salary, a non-negative multiple of 0.01, as \<open>str\<close> writes a
  float: the digits of the whole part, a point, and one or two digits.
\<close>

fun decimal :: "nat \<Rightarrow> ustring" where
  "decimal n = (if n < 10 then [48 + n] else decimal (n div 10) @ [48 + n mod 10])"

declare decimal.simps [simp del]

definition repr_float :: "rat \<Rightarrow> ustring" where
  "repr_float v =
     (let k = nat \<lfloor>v * 100\<rfloor>; c = k mod 100
      in decimal (k div 100) @ [46]
           @ (if c mod 10 = 0 then [48 + c div 10] else [48 + c div 10, 48 + c mod 10]))"

text \<open>
  Two offers of one company in Paris whose titles differ by a noise token only, with
  different contracts, salaries and links, and a third offer.
\<close>

definition offre_a :: offre where
  "offre_a =
     \<lparr>Titre = Str (u ''Data Analyst (CDI)''), Entreprise = Str (u ''ACME''),
      Localisation = Str (u ''Paris 15e - 75''), Contrat = Str (u ''CDI''),
      Salaire = Str (u ''35k '' @ [8364]), Lien = Str (u ''https://www.hellowork.com/a'')\<rparr>"

definition offre_b :: offre where
  "offre_b =
     \<lparr>Titre = Str (u ''Data Analyst H/F''), Entreprise = Str (u ''ACME''),
      Localisation = Str (u ''Paris - 75''), Contrat = Str (u ''CDD''),
      Salaire = Str (u ''Non affich'' @ [233]), Lien = Str (u ''https://www.hellowork.com/b'')\<rparr>"

definition offre_c :: offre where
  "offre_c =
     \<lparr>Titre = Str (u ''Comptable''), Entreprise = Str (u ''ACME''),
      Localisation = Str (u ''Lyon''), Contrat = Str (u ''CDI''),
      Salaire = Str (u ''2000 '' @ [8364] @ u '' / mois''),
      Lien = Str (u ''https://www.hellowork.com/c'')\<rparr>"

text \<open>A card whose title is made of noise tokens only, and the offer read from it.\<close>

definition carte_bruit :: carte where
  "carte_bruit =
     \<lparr>h3 = Some \<lparr>ps = [u ''CDI H/F'', u ''ACME''], h3_textContent = u ''CDI H/FACME''\<rparr>,
      localisationCard = Some (u ''Lyon - 69''),
      contractCard = Some (u ''CDI''),
      textContent = u ''CDI H/FACMELyon - 69CDI'',
      href = Some (Some (u ''https://www.hellowork.com/d''))\<rparr>"

definition offre_bruit :: offre where
  "offre_bruit =
     \<lparr>Titre = Str (u ''CDI H/F''), Entreprise = Str (u ''ACME''),
      Localisation = Str (u ''Lyon - 69''), Contrat = Str (u ''CDI''),
      Salaire = Str (u ''Non affich'' @ [233]), Lien = Str (u ''https://www.hellowork.com/d'')\<rparr>"

text \<open>
  A source that shows thirty cards like \<open>carte_bruit\<close> on every page, and a browser that
  starts and whose page requests all fail.
\<close>

definition nav_30 :: navigateur where
  "nav_30 =
     \<lparr>chrome_ok = True, service_ok = True, get_ok = (\<lambda>p. True),
      serpCards = (\<lambda>p. Some (replicate 30 carte_bruit))\<rparr>"

definition nav_panne :: navigateur where
  "nav_panne =
     \<lparr>chrome_ok = True, service_ok = True, get_ok = (\<lambda>p. False),
      serpCards = (\<lambda>p. Some [])\<rparr>"

section \<open>Evaluation\<close>

text \<open>
  The properties of a character below U+0100, and of the characters from U+0100 on that
  the examples hold: the capital and the small ligature \<open>oe\<close> (338 and 339) and the euro
  sign (8364).
\<close>

lemmas unicode =
  in_rule_def mapped_def in_ranges_def cased_def case_ignorable_def lower_table_def
  title_table_def title_special_def decimal_zeros_def word_table_def cased_table_def
  case_ignorable_table_def casefix_def

lemma is_digit_latin: "c < 256 \<Longrightarrow> is_digit c = (48 \<le> c \<and> c \<le> 57)"
  by (simp add: is_digit_def)

lemma digit_value_latin: "c < 256 \<Longrightarrow> digit_value c = c - 48"
  by (simp add: digit_value_def)

lemma is_word_latin:
  "c < 256 \<Longrightarrow> is_word c =
     ((48 \<le> c \<and> c \<le> 57) \<or> (65 \<le> c \<and> c \<le> 90) \<or> c = 95 \<or> (97 \<le> c \<and> c \<le> 122)
      \<or> c = 170 \<or> c = 178 \<or> c = 179 \<or> c = 181 \<or> c = 185 \<or> c = 186
      \<or> (188 \<le> c \<and> c \<le> 190) \<or> (192 \<le> c \<and> c \<le> 214) \<or> (216 \<le> c \<and> c \<le> 246)
      \<or> (248 \<le> c \<and> c \<le> 255))"
  by (simp add: is_word_def)

lemma tolower_latin:
  "c < 256 \<Longrightarrow> tolower c =
     (if (65 \<le> c \<and> c \<le> 90) \<or> (192 \<le> c \<and> c \<le> 222 \<and> c \<noteq> 215) then c + 32 else c)"
  by (simp add: tolower_def)

lemma title_cp_latin:
  "c < 256 \<Longrightarrow> title_cp c =
     (if (97 \<le> c \<and> c \<le> 122) \<or> (224 \<le> c \<and> c \<le> 254 \<and> c \<noteq> 247) then [c - 32]
      else if c = 181 then [924]
      else if c = 223 then [83, 115]
      else if c = 255 then [376]
      else [c])"
  by (simp add: title_cp_def)

lemma fixes_of_latin:
  "lo < 256 \<Longrightarrow> fixes_of lo =
     (if lo = 105 then [305] else if lo = 115 then [383] else if lo = 181 then [956] else [])"
  by (simp add: fixes_of_def)

lemma majuscule_latin:
  "c < 256 \<Longrightarrow> majuscule c =
     ((65 \<le> c \<and> c \<le> 90) \<or> (192 \<le> c \<and> c \<le> 214) \<or> (216 \<le> c \<and> c \<le> 222))"
  by (simp add: majuscule_def)

lemma ligature_oe:
  "tolower 338 = 339" "tolower 339 = 339" "title_cp 339 = [338]" "title_cp 338 = [338]"
  "is_word 338" "is_word 339" "\<not> is_digit 338" "\<not> is_digit 339"
  "majuscule 338" "\<not> majuscule 339"
  by (simp_all add: tolower_def title_cp_def is_word_def is_digit_def majuscule_def unicode)

lemma euro: "tolower 8364 = 8364" "\<not> is_word 8364" "\<not> is_digit 8364" "\<not> majuscule 8364"
  by (simp_all add: tolower_def is_word_def is_digit_def majuscule_def unicode)

lemmas tables =
  u_def is_space_def is_digit_latin digit_value_latin is_word_latin tolower_latin
  title_cp_latin fixes_of_latin majuscule_latin lower_cp_def dot_def word_at_def next_cp_def
  ligature_oe euro

lemmas chaines = lower_def capitalize_def strip_def re_sub_def findall_def re_search_def

lemmas salaire_defs =
  nettoyer_salaire_def clean_txt_def valeur_def multiplicateur_def motif_nombre_def
  float_of_def chiffres_def round2_def

lemmas titre_defs = simplifier_titre_def titre_clean_def motif_horaire_def mots_a_supprimer_def

lemmas offres = offre_a_def offre_b_def offre_c_def offre_bruit_def carte_bruit_def

lemmas pipeline_defs =
  lancer_traitement_final_def drop_duplicates_def transformer_def cle_def
  separer_localisation_def rsplit1_def motif_arrondissement_def ordinal_def

section \<open>Strings and patterns\<close>

lemma space_10: "is_space 10"
  by (simp add: is_space_def)

lemma space_32: "is_space 32"
  by (simp add: is_space_def)

lemma digit_not_space: "is_digit c \<Longrightarrow> \<not> is_space c"
  by (auto simp: is_digit_def is_space_def decimal_zeros_def split: if_splits)

lemma ascii_digit: "48 \<le> c \<Longrightarrow> c \<le> 57 \<Longrightarrow> is_digit c \<and> digit_value c = c - 48"
  by (simp add: is_digit_def digit_value_def)

lemma find_SomeD: "find P xs = Some x \<Longrightarrow> x \<in> set xs \<and> P x"
  by (induction xs) (auto split: if_splits)

lemma apart_sound: "apart d e \<Longrightarrow> in_prog x d \<Longrightarrow> \<not> in_prog x e"
  unfolding apart_def in_prog_def
  by (auto split: prod.splits if_splits simp: mod_2_eq_odd)

lemma minuscules_apart: "list_all (\<lambda>d. list_all (apart d) majuscules) minuscules"
  by (simp add: minuscules_def majuscules_def lower_table_def apart_def)

lemma majuscule_prog: "majuscule c \<Longrightarrow> \<exists>e \<in> set majuscules. in_prog c e"
proof (cases "c < 256")
  case True
  assume "majuscule c"
  then have "in_prog c (65, 90, 1) \<or> in_prog c (192, 214, 1) \<or> in_prog c (216, 222, 1)"
    using True by (simp add: majuscule_def in_prog_def)
  then show ?thesis
    unfolding majuscules_def by auto
next
  case False
  assume "majuscule c"
  then obtain r where r: "r \<in> set lower_table" "in_rule c r"
    using False by (auto simp: majuscule_def list_ex_iff)
  obtain lo hi st t where p: "r = (lo, hi, st, t)"
    by (cases r) auto
  have "in_prog c (lo, hi, st)"
    using r(2) by (simp add: p in_rule_def in_prog_def)
  moreover have "(lo, hi, st) \<in> set majuscules"
    unfolding majuscules_def using r(1) p by force
  ultimately show ?thesis by blast
qed

lemma tolower_minuscule: "\<not> majuscule (tolower c)"
proof (cases "c < 256")
  case True
  then show ?thesis
    by (auto simp: tolower_def majuscule_def)
next
  case False
  show ?thesis
  proof (cases "find (in_rule c) lower_table")
    case None
    then have "\<not> list_ex (in_rule c) lower_table"
      by (auto simp: find_None_iff list_ex_iff)
    then show ?thesis
      using False None by (simp add: tolower_def mapped_def majuscule_def)
  next
    case (Some r)
    obtain lo hi st t where p: "r = (lo, hi, st, t)"
      by (cases r) auto
    have r: "r \<in> set lower_table" "in_rule c r"
      using find_SomeD [OF Some] by simp_all
    have y: "tolower c = t + (c - lo)"
      using False Some by (simp add: tolower_def mapped_def p)
    have "lo \<le> c" "c \<le> hi" "(c - lo) mod st = 0"
      using r(2) by (simp_all add: p in_rule_def)
    then have "in_prog (t + (c - lo)) (t, t + (hi - lo), st)"
      unfolding in_prog_def by auto
    moreover have "(t, t + (hi - lo), st) \<in> set minuscules"
      unfolding minuscules_def using r(1) p by force
    ultimately have "\<forall>e \<in> set majuscules. \<not> in_prog (t + (c - lo)) e"
      using minuscules_apart apart_sound unfolding list_all_iff by blast
    then show ?thesis
      unfolding y using majuscule_prog by blast
  qed
qed

lemma lower_cp_minuscule: "list_all (\<lambda>x. \<not> majuscule x) (lower_cp c)"
proof (cases "c = 304")
  case True
  then show ?thesis
    by (simp add: lower_cp_def majuscule_def unicode)
next
  case False
  then show ?thesis
    by (simp add: lower_cp_def tolower_minuscule)
qed

lemma lower_from_minuscule: "list_all (\<lambda>x. \<not> majuscule x) (lower_from pre s)"
proof (induction s arbitrary: pre)
  case Nil
  show ?case by simp
next
  case (Cons c cs)
  have "\<not> majuscule 962" "\<not> majuscule 963"
    by (simp_all add: majuscule_def unicode)
  then show ?case
    using Cons lower_cp_minuscule [of c] by simp
qed

lemma majuscule_lower_cp: "majuscule c \<Longrightarrow> lower_cp c \<noteq> [c]"
  using lower_cp_minuscule [of c] by (auto simp: list_all_iff)

text \<open>
  The capital sigma at the end of a word and at its start, and the capital I with a dot
  above.
\<close>

lemma lower_sigma:
  "lower [927, 916, 927, 931] = [959, 948, 959, 962]"
  "lower [931, 927, 934, 927, 931] = [963, 959, 966, 959, 962]"
  "lower [304] = [105, 775]"
  by (simp_all add: lower_def lower_cp_def tolower_def unicode)

lemma contient_absent: "x \<notin> set s \<Longrightarrow> \<not> contient (x # needle) s"
  by (induction s) auto

lemma replace_absent: "x \<notin> set s \<Longrightarrow> replace (x # old) new s = s"
  by (induction s) auto

lemma lower_from_digits:
  "\<forall>c \<in> set s. (48 \<le> c \<and> c \<le> 57) \<or> c = 46 \<Longrightarrow> lower_from pre s = s"
  by (induction s arbitrary: pre) (auto simp: lower_cp_def tolower_def)

lemma lower_digits: "\<forall>c \<in> set s. (48 \<le> c \<and> c \<le> 57) \<or> c = 46 \<Longrightarrow> lower s = s"
  by (simp add: lower_def lower_from_digits)

lemma strip_last: "strip x = [] \<or> \<not> is_space (last (strip x))"
proof (cases "strip x = []")
  case True
  then show ?thesis by simp
next
  case False
  let ?ys = "dropWhile is_space (rev (dropWhile is_space x))"
  have ys: "?ys \<noteq> []" using False by (simp add: strip_def)
  then have "\<not> is_space (hd ?ys)" by (rule hd_dropWhile)
  moreover have "last (strip x) = hd ?ys"
    using ys by (simp add: strip_def last_rev)
  ultimately show ?thesis by simp
qed

lemma strip_hd: "strip x = [] \<or> \<not> is_space (hd (strip x))"
proof (cases "strip x = []")
  case True
  then show ?thesis by simp
next
  case False
  let ?ys = "dropWhile is_space x"
  let ?zs = "dropWhile is_space (rev ?ys)"
  have zs: "?zs \<noteq> []" using False by (simp add: strip_def)
  have ys: "?ys \<noteq> []"
  proof
    assume "?ys = []"
    then have "?zs = []" by (simp only: rev.simps dropWhile.simps)
    with zs show False by blast
  qed
  have "hd (strip x) = last ?zs"
    using zs by (simp add: strip_def hd_rev)
  also have "\<dots> = last (rev ?ys)"
    using zs by (metis last_appendR takeWhile_dropWhile_id)
  also have "\<dots> = hd ?ys"
    using ys by (simp add: last_rev)
  finally have "hd (strip x) = hd ?ys" .
  moreover have "\<not> is_space (hd ?ys)" using ys by (rule hd_dropWhile)
  ultimately show ?thesis by simp
qed

lemma strip_decomp: "\<exists>pre post. s = pre @ strip s @ post"
proof -
  let ?ys = "dropWhile is_space s"
  have 1: "s = takeWhile is_space s @ ?ys" by simp
  have "rev (takeWhile is_space (rev ?ys) @ dropWhile is_space (rev ?ys)) = ?ys"
    by (simp only: takeWhile_dropWhile_id rev_rev_ident)
  then have "rev (dropWhile is_space (rev ?ys)) @ rev (takeWhile is_space (rev ?ys)) = ?ys"
    by (simp only: rev_append)
  then have "?ys = strip s @ rev (takeWhile is_space (rev ?ys))"
    by (simp only: strip_def)
  with 1 have "s = takeWhile is_space s @ strip s @ rev (takeWhile is_space (rev ?ys))"
    by simp
  then show ?thesis by blast
qed

lemma run_iff:
  "(q, s') \<in> set (run P p s) \<longleftrightarrow>
     (\<exists>ds. s = ds @ s' \<and> list_all P ds \<and> q = (if ds = [] then p else Some (last ds)))"
proof (induction s arbitrary: p)
  case Nil
  then show ?case by auto
next
  case (Cons x xs)
  show ?case
  proof
    assume "(q, s') \<in> set (run P p (x # xs))"
    then consider "q = p \<and> s' = x # xs" | "P x \<and> (q, s') \<in> set (run P (Some x) xs)"
      by (auto split: if_splits)
    then show "\<exists>ds. x # xs = ds @ s' \<and> list_all P ds \<and> q = (if ds = [] then p else Some (last ds))"
    proof cases
      case 1
      then show ?thesis by (intro exI [of _ "[]"]) simp
    next
      case 2
      then obtain ds where "xs = ds @ s'" "list_all P ds" "q = (if ds = [] then Some x else Some (last ds))"
        using Cons.IH by blast
      with 2 show ?thesis by (intro exI [of _ "x # ds"]) simp
    qed
  next
    assume "\<exists>ds. x # xs = ds @ s' \<and> list_all P ds \<and> q = (if ds = [] then p else Some (last ds))"
    then obtain ds where ds: "x # xs = ds @ s'" "list_all P ds" "q = (if ds = [] then p else Some (last ds))"
      by blast
    show "(q, s') \<in> set (run P p (x # xs))"
    proof (cases ds)
      case Nil
      then have "s' = x # xs" "q = p" using ds by simp_all
      then show ?thesis by simp
    next
      case (Cons y ds')
      then have "xs = ds' @ s'" "P x" "list_all P ds'" "q = (if ds' = [] then Some x else Some (last ds'))"
        using ds by auto
      then have "(q, s') \<in> set (run P (Some x) xs)"
        using Cons.IH by blast
      then show ?thesis using \<open>P x\<close> by simp
    qed
  qed
qed

lemma run_tl_iff:
  "(q, s') \<in> set (tl (run P p s)) \<longleftrightarrow>
     (\<exists>ds. ds \<noteq> [] \<and> s = ds @ s' \<and> list_all P ds \<and> q = Some (last ds))"
proof (cases s)
  case Nil
  then show ?thesis by simp
next
  case (Cons x xs)
  show ?thesis
  proof
    assume "(q, s') \<in> set (tl (run P p s))"
    then have "P x" and "(q, s') \<in> set (run P (Some x) xs)"
      using Cons by (auto split: if_splits)
    then obtain ds where "xs = ds @ s'" "list_all P ds" "q = (if ds = [] then Some x else Some (last ds))"
      unfolding run_iff by blast
    then show "\<exists>ds. ds \<noteq> [] \<and> s = ds @ s' \<and> list_all P ds \<and> q = Some (last ds)"
      using Cons \<open>P x\<close> by (intro exI [of _ "x # ds"]) simp
  next
    assume "\<exists>ds. ds \<noteq> [] \<and> s = ds @ s' \<and> list_all P ds \<and> q = Some (last ds)"
    then obtain ds where ds: "ds \<noteq> []" "s = ds @ s'" "list_all P ds" "q = Some (last ds)"
      by blast
    then obtain ds' where d: "ds = x # ds'" using Cons by (cases ds) auto
    then have "xs = ds' @ s' \<and> list_all P ds' \<and> q = (if ds' = [] then Some x else Some (last ds'))"
      using ds Cons by auto
    then have "(q, s') \<in> set (run P (Some x) xs)"
      unfolding run_iff by blast
    moreover have "P x" using ds d by simp
    ultimately show "(q, s') \<in> set (tl (run P p s))"
      using Cons by simp
  qed
qed

lemma run_snoc: "\<exists>q init. run P p s = init @ [(q, dropWhile P s)]"
proof (induction s arbitrary: p)
  case Nil
  then show ?case by simp
next
  case (Cons x xs)
  show ?case
  proof (cases "P x")
    case True
    obtain q init where "run P (Some x) xs = init @ [(q, dropWhile P xs)]"
      using Cons by blast
    then have "run P p (x # xs) = ((p, x # xs) # init) @ [(q, dropWhile P (x # xs))]"
      using True by simp
    then show ?thesis by blast
  next
    case False
    then have "run P p (x # xs) = [] @ [(p, dropWhile P (x # xs))]" by simp
    then show ?thesis by blast
  qed
qed

lemma ends_Seq_iff:
  "m' \<in> set (ends ic (Seq a b) q) \<longleftrightarrow> (\<exists>m \<in> set (ends ic a q). m' \<in> set (ends ic b m))"
  by simp

lemma ends_Cls_iff:
  "m \<in> set (ends ic (Cls P) (p, s)) \<longleftrightarrow> (\<exists>x xs. s = x # xs \<and> P x \<and> m = (Some x, xs))"
  by (cases s) auto

lemma ends_Plus_iff:
  "(q, s') \<in> set (ends ic (Plus P) (p, s)) \<longleftrightarrow>
     (\<exists>ds. ds \<noteq> [] \<and> s = ds @ s' \<and> list_all P ds \<and> q = Some (last ds))"
  by (simp add: run_tl_iff)

lemma ends_Opt_iff: "m \<in> set (ends ic (Opt a) q) \<longleftrightarrow> m \<in> set (ends ic a q) \<or> m = q"
  by auto

lemma ends_Eol_iff: "m \<in> set (ends ic Eol (p, s)) \<longleftrightarrow> m = (p, s) \<and> (s = [] \<or> s = [10])"
  by auto

lemma ends_Plus_Cons:
  assumes "P x"
  shows "\<exists>q rest. ends ic (Plus P) (p, x # xs) = (q, dropWhile P xs) # rest"
proof -
  obtain q init where "run P (Some x) xs = init @ [(q, dropWhile P xs)]"
    using run_snoc by blast
  then have "ends ic (Plus P) (p, x # xs) = (q, dropWhile P xs) # rev init"
    using assms by simp
  then show ?thesis by blast
qed

text \<open>
  A match of a pattern reads a prefix of the text, of at least \<open>min_len\<close> characters. No
  pattern of the two source files matches the empty string, so \<open>re.sub\<close> never meets an
  empty match on them.
\<close>

lemma ends_min_len:
  "(q, s') \<in> set (ends ic r (p, s)) \<Longrightarrow> \<exists>m. s = m @ s' \<and> min_len r \<le> length m"
proof (induction r arbitrary: p s q s')
  case Eps
  then show ?case by simp
next
  case (Lit c)
  then show ?case by (cases s) (auto split: if_splits)
next
  case (Cls P)
  then show ?case by (cases s) (auto split: if_splits)
next
  case (Seq a b)
  from Seq.prems obtain pm sm where m: "(pm, sm) \<in> set (ends ic a (p, s))"
    and r: "(q, s') \<in> set (ends ic b (pm, sm))"
    by auto
  obtain m1 where 1: "s = m1 @ sm" "min_len a \<le> length m1"
    using Seq.IH(1) [OF m] by blast
  obtain m2 where 2: "sm = m2 @ s'" "min_len b \<le> length m2"
    using Seq.IH(2) [OF r] by blast
  have "s = (m1 @ m2) @ s'" "min_len (Seq a b) \<le> length (m1 @ m2)"
    using 1 2 by simp_all
  then show ?case by blast
next
  case (Alt a b)
  then have "(q, s') \<in> set (ends ic a (p, s)) \<or> (q, s') \<in> set (ends ic b (p, s))"
    by simp
  then show ?case
    using Alt.IH by (fastforce simp: min_def)
next
  case (Opt a)
  then have "(q, s') \<in> set (ends ic a (p, s)) \<or> s' = s"
    by auto
  then show ?case
    using Opt.IH by fastforce
next
  case (Plus P)
  then obtain ds where "ds \<noteq> []" "s = ds @ s'"
    unfolding ends_Plus_iff by blast
  then have "s = ds @ s'" "min_len (Plus P) \<le> length ds"
    by (simp_all add: Suc_leI)
  then show ?case by blast
next
  case (Star P)
  then show ?case by (auto simp: run_iff)
next
  case (LazyStar P)
  then show ?case by (auto simp: run_iff)
next
  case WordB
  then show ?case by (auto split: if_splits)
next
  case Eol
  then show ?case by (auto split: if_splits)
qed

lemma motifs_non_vides:
  "list_all (\<lambda>r. 0 < min_len r)
     ([motif_nombre, motif_horaire, motif_arrondissement, motif_salaire, Plus is_space,
       Cls (\<lambda>c. c = 45 \<or> c = 95)] @ mots_a_supprimer)"
  by (simp add: motif_nombre_def motif_horaire_def motif_arrondissement_def ordinal_def
      motif_salaire_def mots_a_supprimer_def u_def)

lemma sub_from_non_vide:
  assumes "0 < min_len r"
  shows "sub_from ic r repl p [] = []"
    and "sub_from ic r repl p (x # xs) =
      (case ends ic r (p, x # xs) of
         [] \<Rightarrow> x # sub_from ic r repl (Some x) xs
       | (p', s') # _ \<Rightarrow> repl @ sub_from ic r repl p' s')"
proof -
  have e: "length s' < length s" if "(q, s') \<in> set (ends ic r (p, s))" for q s' p s
    using ends_min_len [OF that] assms by auto
  show "sub_from ic r repl p [] = []"
  proof (cases "ends ic r (p, [])")
    case Nil
    then show ?thesis by simp
  next
    case (Cons m ms)
    then have "(fst m, snd m) \<in> set (ends ic r (p, []))" by simp
    from e [OF this] show ?thesis by simp
  qed
  show "sub_from ic r repl p (x # xs) =
      (case ends ic r (p, x # xs) of
         [] \<Rightarrow> x # sub_from ic r repl (Some x) xs
       | (p', s') # _ \<Rightarrow> repl @ sub_from ic r repl p' s')"
  proof (cases "ends ic r (p, x # xs)")
    case Nil
    then show ?thesis by simp
  next
    case (Cons m ms)
    then have "(fst m, snd m) \<in> set (ends ic r (p, x # xs))" by simp
    from e [OF this] have "length (snd m) \<le> length xs" by simp
    then show ?thesis using Cons by (cases m) simp
  qed
qed

lemma sub_from_no_match:
  "(\<And>p k. ends ic r (p, drop k s) = []) \<Longrightarrow> sub_from ic r repl p s = s"
proof (induction s arbitrary: p)
  case Nil
  then show ?case using Nil [of p 0] by simp
next
  case (Cons x xs)
  have "ends ic r (p, x # xs) = []" using Cons.prems [of p 0] by simp
  moreover have "sub_from ic r repl (Some x) xs = xs"
  proof (rule Cons.IH)
    fix p k
    show "ends ic r (p, drop k xs) = []" using Cons.prems [of p "Suc k"] by simp
  qed
  ultimately show ?case by simp
qed

lemma sub_from_Cls:
  "sub_from ic (Cls P) repl p s = concat (map (\<lambda>c. if P c then repl else [c]) s)"
  by (induction s arbitrary: p) simp_all

lemma sub_from_espaces:
  "set (sub_from False (Plus is_space) [32] p s) \<subseteq> {c \<in> set s. \<not> is_space c} \<union> {32}
   \<and> successively (\<lambda>a b. \<not> (a = 32 \<and> b = 32)) (sub_from False (Plus is_space) [32] p s)
   \<and> (s = [] \<or> \<not> is_space (hd s) \<longrightarrow>
        sub_from False (Plus is_space) [32] p s = []
        \<or> hd (sub_from False (Plus is_space) [32] p s) \<noteq> 32)"
proof (induction "length s" arbitrary: s p rule: less_induct)
  case less
  show ?case
  proof (cases s)
    case Nil
    then show ?thesis by simp
  next
    case (Cons x xs)
    show ?thesis
    proof (cases "is_space x")
      case True
      obtain q rest where e: "ends False (Plus is_space) (p, x # xs) = (q, dropWhile is_space xs) # rest"
        using ends_Plus_Cons [of is_space x False p xs] True by blast
      let ?s' = "dropWhile is_space xs"
      let ?r' = "sub_from False (Plus is_space) [32] q ?s'"
      have len: "length ?s' \<le> length xs" by (rule length_dropWhile_le)
      then have r: "sub_from False (Plus is_space) [32] p s = 32 # ?r'"
        using e Cons by simp
      have "length ?s' < length s" using len Cons by simp
      note ih = less [OF this, of q]
      have hd': "?s' = [] \<or> \<not> is_space (hd ?s')"
        using hd_dropWhile [of is_space xs] by blast
      then have no32: "?r' = [] \<or> hd ?r' \<noteq> 32" using ih by blast
      have "set ?s' \<subseteq> set xs" by (auto dest: set_dropWhileD)
      then have 1: "set (32 # ?r') \<subseteq> {c \<in> set s. \<not> is_space c} \<union> {32}"
        using ih Cons by auto
      have 2: "successively (\<lambda>a b. \<not> (a = 32 \<and> b = 32)) (32 # ?r')"
        using ih no32 by (cases ?r') auto
      show ?thesis
        unfolding r using 1 2 True Cons by simp
    next
      case False
      let ?r' = "sub_from False (Plus is_space) [32] (Some x) xs"
      have r: "sub_from False (Plus is_space) [32] p s = x # ?r'"
        using False Cons by simp
      have "length xs < length s" using Cons by simp
      note ih = less [OF this, of "Some x"]
      have x32: "x \<noteq> 32" using False space_32 by auto
      have 1: "set (x # ?r') \<subseteq> {c \<in> set s. \<not> is_space c} \<union> {32}"
        using ih Cons False by auto
      have 2: "successively (\<lambda>a b. \<not> (a = 32 \<and> b = 32)) (x # ?r')"
        using ih x32 by (cases ?r') auto
      show ?thesis
        unfolding r using 1 2 x32 by simp
    qed
  qed
qed

section \<open>The salary\<close>

lemma round2_bornes:
  assumes "14000 \<le> x" and "x \<le> 200000"
  shows "14000 \<le> round2 x \<and> round2 x \<le> 200000"
proof -
  define y where "y = x * 100"
  define f where "f = \<lfloor>y\<rfloor>"
  have y_lo: "1400000 \<le> y" and y_hi: "y \<le> 20000000"
    using assms by (simp_all add: y_def)
  have f_lo: "1400000 \<le> f"
    unfolding f_def using y_lo by (simp add: le_floor_iff)
  have f_hi: "f \<le> 20000000"
    unfolding f_def using y_hi by (simp add: floor_le_iff)
  have f_strict: "f + 1 \<le> 20000000" if "of_int f < y"
  proof -
    have "of_int f < (20000000 :: rat)" using that y_hi by linarith
    then have "f < 20000000" by linarith
    then show ?thesis by simp
  qed
  have "round2 x = of_int f / 100 \<or> (of_int f < y \<and> round2 x = of_int (f + 1) / 100)"
    unfolding round2_def Let_def y_def [symmetric] f_def [symmetric]
    by (auto simp: not_less)
  then show ?thesis
  proof
    assume "round2 x = of_int f / 100"
    then show ?thesis using f_lo f_hi by simp
  next
    assume h: "of_int f < y \<and> round2 x = of_int (f + 1) / 100"
    then have "f + 1 \<le> 20000000" using f_strict by blast
    moreover have "1400000 \<le> f + 1" using f_lo by simp
    ultimately show ?thesis using h by (simp del: of_int_add)
  qed
qed

text \<open>
  C1. Whatever the cell, a salary that \<open>nettoyer_salaire\<close> returns lies between 14000 and
  200000, both bounds included: the texts \<open>14000\<close> and \<open>200000\<close> are kept, \<open>13999.99\<close> and
  \<open>200000.01\<close> give no salary.
\<close>

theorem nettoyer_salaire_bornes:
  "(nettoyer_salaire c = Some v \<longrightarrow> 14000 \<le> v \<and> v \<le> 200000)
   \<and> nettoyer_salaire (Str (u ''14000'')) = Some 14000
   \<and> nettoyer_salaire (Str (u ''200000'')) = Some 200000
   \<and> nettoyer_salaire (Str (u ''13999.99'')) = None
   \<and> nettoyer_salaire (Str (u ''200000.01'')) = None"
proof -
  have "14000 \<le> v \<and> v \<le> 200000" if "nettoyer_salaire c = Some v"
  proof -
    show ?thesis
      using that unfolding nettoyer_salaire_def Let_def
      by (auto split: cell.splits if_splits simp: not_less round2_bornes)
  qed
  moreover have "nettoyer_salaire (Str (u ''14000'')) = Some 14000"
    by (simp add: tables chaines salaire_defs)
  moreover have "nettoyer_salaire (Str (u ''200000'')) = Some 200000"
    by (simp add: tables chaines salaire_defs)
  moreover have "nettoyer_salaire (Str (u ''13999.99'')) = None"
    by (simp add: tables chaines salaire_defs)
  moreover have "nettoyer_salaire (Str (u ''200000.01'')) = None"
    by (simp add: tables chaines salaire_defs)
  ultimately show ?thesis by blast
qed

theorem nettoyer_salaire_bornes_witness:
  "nettoyer_salaire (Str (u ''2000 '' @ [8364] @ u '' / mois'')) = Some 24000
   \<and> (14000 :: rat) \<le> 24000 \<and> (24000 :: rat) \<le> 200000"
proof -
  have h: "nettoyer_salaire (Str (u ''2000 '' @ [8364] @ u '' / mois'')) = Some 24000"
    by (simp add: tables chaines salaire_defs)
  show ?thesis
    using h nettoyer_salaire_bornes [of "Str (u ''2000 '' @ [8364] @ u '' / mois'')" 24000]
    by simp
qed

text \<open>
  C2. The three examples of the docstring: \<open>2000 euros / mois\<close> is 24000 a year (the
  value 2000, the word \<open>mois\<close>, the factor 12), \<open>12 euros / heure\<close> is 21840.48 (the value
  12, the word \<open>heure\<close>, the factor 151.67 times 12, that is 1820.04) and \<open>35k euros\<close> is
  35000 (the text read is \<open>35000\<close> followed by the euro sign, without any unit, and 35000
  lies outside the band from 1200 to 12000, so the factor is 1).
\<close>

theorem nettoyer_salaire_exemples:
  "nettoyer_salaire (Str (u ''2000 '' @ [8364] @ u '' / mois'')) = Some 24000
   \<and> valeur (findall motif_nombre (clean_txt (u ''2000 '' @ [8364] @ u '' / mois''))) = 2000
   \<and> multiplicateur (clean_txt (u ''2000 '' @ [8364] @ u '' / mois'')) 2000 = 12
   \<and> nettoyer_salaire (Str (u ''12 '' @ [8364] @ u '' / heure'')) = Some (2184048 / 100)
   \<and> valeur (findall motif_nombre (clean_txt (u ''12 '' @ [8364] @ u '' / heure''))) = 12
   \<and> multiplicateur (clean_txt (u ''12 '' @ [8364] @ u '' / heure'')) 12 = 182004 / 100
   \<and> nettoyer_salaire (Str (u ''35k '' @ [8364])) = Some 35000
   \<and> clean_txt (u ''35k '' @ [8364]) = u ''35000'' @ [8364]
   \<and> valeur (findall motif_nombre (clean_txt (u ''35k '' @ [8364]))) = 35000
   \<and> multiplicateur (clean_txt (u ''35k '' @ [8364])) 35000 = 1"
  by (simp add: tables chaines salaire_defs)

subsection \<open>Reading a salary back\<close>

lemma decimal_ascii: "list_all (\<lambda>c. 48 \<le> c \<and> c \<le> 57) (decimal n) \<and> decimal n \<noteq> []"
proof (induction n rule: decimal.induct)
  case (1 n)
  show ?case
  proof (cases "n < 10")
    case True
    then show ?thesis by (simp add: decimal.simps [of n])
  next
    case False
    have "n mod 10 < 10" by simp
    then have "48 + n mod 10 \<le> 57" by linarith
    then show ?thesis using False 1 by (simp add: decimal.simps [of n])
  qed
qed

lemma decimal_digits: "list_all is_digit (decimal n) \<and> decimal n \<noteq> []"
  using decimal_ascii [of n] by (auto simp: list_all_iff ascii_digit)

lemma chiffres_snoc: "chiffres (ds @ [c]) = 10 * chiffres ds + digit_value c"
  by (simp add: chiffres_def)

lemma digit_value_ascii: "n < 10 \<Longrightarrow> digit_value (48 + n) = n"
  by (simp add: digit_value_def)

lemma chiffres_decimal: "chiffres (decimal n) = n"
proof (induction n rule: decimal.induct)
  case (1 n)
  show ?case
  proof (cases "n < 10")
    case True
    then show ?thesis by (simp add: decimal.simps [of n] chiffres_def digit_value_ascii)
  next
    case False
    then show ?thesis using 1 by (simp add: decimal.simps [of n] chiffres_snoc digit_value_ascii)
  qed
qed

lemma ends_motif_nombre:
  assumes ds: "list_all is_digit ds" "ds \<noteq> []" and fs: "list_all is_digit fs" "fs \<noteq> []"
  shows "\<exists>q rest. ends False motif_nombre (p, ds @ 46 # fs) = (q, []) # rest"
proof -
  obtain x ds' where d: "ds = x # ds'" using ds by (cases ds) auto
  obtain y fs' where f: "fs = y # fs'" using fs by (cases fs) auto
  have n46: "\<not> is_digit 46" by (simp add: is_digit_def)
  have "dropWhile is_digit (ds' @ 46 # fs) = 46 # fs"
    using ds d n46 by (simp add: list_all_iff dropWhile_append3)
  then obtain q1 rest1 where 1:
    "ends False (Plus is_digit) (p, ds @ 46 # fs) = (q1, 46 # fs) # rest1"
    using ends_Plus_Cons [of is_digit x False p "ds' @ 46 # fs"] ds d by auto
  have "dropWhile is_digit fs' = []"
    using fs f by (simp add: list_all_iff)
  then obtain q2 rest2 where 2: "ends False (Plus is_digit) (Some 46, fs) = (q2, []) # rest2"
    using ends_Plus_Cons [of is_digit y False "Some 46" fs'] fs f by auto
  have "ends False motif_nombre (p, ds @ 46 # fs)
      = (q2, []) # rest2 @ [(q1, 46 # fs)]
          @ concat (map (ends False (Opt (Seq (Lit 46) (Plus is_digit)))) rest1)"
    unfolding motif_nombre_def ends.simps(4) 1 using 2 by simp
  then show ?thesis by blast
qed

lemma findall_motif_nombre:
  assumes ds: "list_all is_digit ds" "ds \<noteq> []" and fs: "list_all is_digit fs" "fs \<noteq> []"
  shows "findall motif_nombre (ds @ 46 # fs) = [ds @ 46 # fs]"
proof -
  obtain x xs where t: "ds @ 46 # fs = x # xs" using ds by (cases ds) auto
  obtain q rest where e: "ends False motif_nombre (None, x # xs) = (q, []) # rest"
    using ends_motif_nombre [OF ds fs, of None] unfolding t by blast
  have "ends False motif_nombre (q, []) = []"
    by (simp add: motif_nombre_def)
  then have "findall_from motif_nombre None (x # xs) = [x # xs]"
    using e by simp
  then show ?thesis by (simp add: findall_def t)
qed

lemma float_of_point:
  assumes "list_all is_digit ds"
  shows "float_of (ds @ 46 # fs) = of_nat (chiffres ds) + of_nat (chiffres fs) / 10 ^ length fs"
proof -
  have "\<not> is_digit 46"
    by (simp add: is_digit_def)
  then have "\<forall>c \<in> set ds. c \<noteq> 46"
    using assms by (auto simp: list_all_iff)
  then have "takeWhile (\<lambda>c. c \<noteq> 46) (ds @ 46 # fs) = ds"
    by (simp add: takeWhile_append2)
  then show ?thesis by (simp add: float_of_def)
qed

lemma round2_centieme: "round2 (of_int k / 100) = of_int k / 100"
  by (simp add: round2_def)

lemma round2_forme:
  assumes "14000 \<le> x" and "x \<le> 200000"
  shows "\<exists>n. round2 x = of_nat n / 100 \<and> 1400000 \<le> n \<and> n \<le> 20000000"
proof -
  obtain k :: int where k: "round2 x = of_int k / 100"
    unfolding round2_def Let_def by blast
  have "14000 \<le> round2 x \<and> round2 x \<le> 200000"
    using assms by (rule round2_bornes)
  then have "1400000 \<le> (of_int k :: rat)" "(of_int k :: rat) \<le> 20000000"
    unfolding k by simp_all
  then have b: "1400000 \<le> k" "k \<le> 20000000"
    by linarith+
  then have "round2 x = of_nat (nat k) / 100" "1400000 \<le> nat k" "nat k \<le> 20000000"
    using k by simp_all
  then show ?thesis by blast
qed

lemma nettoyer_salaire_repr:
  assumes n: "1400000 \<le> n" "n \<le> 20000000"
  shows "nettoyer_salaire (Str (repr_float (of_nat n / 100))) = Some (of_nat n / 100)"
proof -
  define v :: rat where "v = of_nat n / 100"
  define a where "a = n div 100"
  define c where "c = n mod 100"
  define fs where "fs = (if c mod 10 = 0 then [48 + c div 10] else [48 + c div 10, 48 + c mod 10])"
  define t where "t = decimal a @ 46 # fs"
  have "nat \<lfloor>v * 100\<rfloor> = n"
    by (simp add: v_def)
  then have repr: "repr_float v = t"
    by (simp add: repr_float_def Let_def t_def fs_def c_def a_def)
  have c10: "c div 10 < 10" "c mod 10 < 10"
    unfolding c_def by simp_all
  have fs_ascii: "list_all (\<lambda>x. 48 \<le> x \<and> x \<le> 57) fs" "fs \<noteq> []"
    using c10 unfolding fs_def by auto
  have fs_digits: "list_all is_digit fs" "fs \<noteq> []"
    using fs_ascii by (auto simp: list_all_iff ascii_digit)
  have fs_val: "(of_nat (chiffres fs) :: rat) / 10 ^ length fs = of_nat c / 100"
  proof (cases "c mod 10 = 0")
    case True
    then have "c = 10 * (c div 10)" by auto
    then have "(of_nat c :: rat) = 10 * of_nat (c div 10)"
      by (metis of_nat_mult of_nat_numeral)
    then show ?thesis using True c10 by (simp add: fs_def chiffres_def digit_value_ascii)
  next
    case False
    have "c = 10 * (c div 10) + c mod 10" by simp
    then have "(of_nat c :: rat) = of_nat (10 * (c div 10) + c mod 10)"
      by simp
    then show ?thesis using False c10 by (simp add: fs_def chiffres_def digit_value_ascii)
  qed
  have ds: "list_all is_digit (decimal a)" "decimal a \<noteq> []"
    using decimal_digits by simp_all
  have "float_of t = of_nat a + of_nat c / 100"
    unfolding t_def float_of_point [OF ds(1)] chiffres_decimal fs_val ..
  also have "\<dots> = of_nat (100 * a + c) / 100"
    by simp
  also have "100 * a + c = n"
    unfolding a_def c_def by simp
  finally have val: "float_of t = v"
    by (simp add: v_def)
  have chars: "\<forall>x \<in> set t. (48 \<le> x \<and> x \<le> 57) \<or> x = 46"
    using decimal_ascii [of a] fs_ascii by (auto simp: t_def list_all_iff)
  have absent: "110 \<notin> set t" "32 \<notin> set t" "8239 \<notin> set t" "160 \<notin> set t" "107 \<notin> set t"
    "109 \<notin> set t" "104 \<notin> set t" "106 \<notin> set t"
    using chars by auto
  have low: "lower t = t"
    using chars by (rule lower_digits)
  have clean: "clean_txt t = t"
    using absent by (simp add: clean_txt_def low u_def replace_absent)
  have na: "\<not> contient (u ''non affich'' @ [233]) (lower t)"
    using absent by (simp add: low u_def contient_absent)
  have nombres: "findall motif_nombre t = [t]"
    unfolding t_def using ds fs_digits by (rule findall_motif_nombre)
  have v_lo: "14000 \<le> v" and v_hi: "v \<le> 200000"
    using n by (simp_all add: v_def)
  have mult: "multiplicateur t v = 1"
    using absent v_lo by (simp add: multiplicateur_def u_def contient_absent)
  have r: "round2 v = v"
    using round2_centieme [of "int n"] by (simp add: v_def)
  have "nettoyer_salaire (Str t) = Some v"
    using v_lo v_hi
    by (simp add: nettoyer_salaire_def na nombres Let_def valeur_def val clean mult r)
  then show ?thesis
    using repr by (simp add: v_def)
qed

text \<open>
  C8. \<open>nettoyer_salaire\<close> is a function of the cell alone. A salary it returns is a
  multiple of 0.01 between 14000 and 200000; its decimal rendering is read back as the same
  number, without unit and outside the band of the monthly salaries, so that
  \<open>nettoyer_salaire\<close> returns the salary again.
\<close>

theorem nettoyer_salaire_idempotent:
  "nettoyer_salaire c = Some v \<Longrightarrow> nettoyer_salaire (Str (repr_float v)) = Some v"
proof -
  assume "nettoyer_salaire c = Some v"
  then obtain x where "v = round2 x" "14000 \<le> x" "x \<le> 200000"
    unfolding nettoyer_salaire_def Let_def
    by (auto split: cell.splits if_splits simp: not_less)
  then obtain n where v: "v = of_nat n / 100" and n: "1400000 \<le> n" "n \<le> 20000000"
    using round2_forme by blast
  show ?thesis
    unfolding v using n by (rule nettoyer_salaire_repr)
qed

theorem nettoyer_salaire_idempotent_witness:
  "nettoyer_salaire (Str (u ''12 '' @ [8364] @ u '' / heure'')) = Some (2184048 / 100)
   \<and> repr_float (2184048 / 100) = u ''21840.48''
   \<and> nettoyer_salaire (Str (u ''21840.48'')) = Some (2184048 / 100)"
proof -
  have h: "nettoyer_salaire (Str (u ''12 '' @ [8364] @ u '' / heure'')) = Some (2184048 / 100)"
    by (simp add: tables chaines salaire_defs)
  have r: "repr_float (2184048 / 100) = u ''21840.48''"
    by (simp add: repr_float_def decimal.simps u_def)
  show ?thesis
    using nettoyer_salaire_idempotent [OF h] h r by simp
qed

section \<open>The title\<close>

lemma titre_clean_propre:
  "45 \<notin> set (titre_clean t) \<and> 95 \<notin> set (titre_clean t)
   \<and> (\<forall>c \<in> set (titre_clean t). is_space c \<longrightarrow> c = 32)
   \<and> \<not> sublist [32, 32] (titre_clean t)
   \<and> (titre_clean t \<noteq> [] \<longrightarrow> \<not> is_space (hd (titre_clean t)) \<and> \<not> is_space (last (titre_clean t)))"
proof -
  define s0 where "s0 = foldl (\<lambda>t motif. re_sub True motif (u '' '') t)
            (re_sub False motif_horaire [] t) mots_a_supprimer"
  define s1 where "s1 = re_sub False (Cls (\<lambda>c. c = 45 \<or> c = 95)) (u '' '') s0"
  define s2 where "s2 = re_sub False (Plus is_space) (u '' '') s1"
  have b: "titre_clean t = strip s2"
    by (simp add: titre_clean_def s0_def s1_def s2_def)
  have "s1 = concat (map (\<lambda>c. if c = 45 \<or> c = 95 then [32] else [c]) s0)"
    by (simp add: s1_def re_sub_def sub_from_Cls u_def)
  then have s1: "45 \<notin> set s1" "95 \<notin> set s1"
    by auto
  note e = sub_from_espaces [of None s1]
  have s2e: "s2 = sub_from False (Plus is_space) [32] None s1"
    by (simp add: s2_def re_sub_def u_def)
  have s2set: "set s2 \<subseteq> {c \<in> set s1. \<not> is_space c} \<union> {32}"
    and s2succ: "successively (\<lambda>a b. \<not> (a = 32 \<and> b = 32)) s2"
    unfolding s2e using e by blast+
  obtain pre post where d: "s2 = pre @ strip s2 @ post"
    using strip_decomp by blast
  then have sub: "set (strip s2) \<subseteq> set s2"
    by (metis Un_iff set_append subsetI)
  have 1: "45 \<notin> set (strip s2)" "95 \<notin> set (strip s2)"
    using sub s2set s1 by auto
  have 2: "\<forall>c \<in> set (strip s2). is_space c \<longrightarrow> c = 32"
    using sub s2set by auto
  have 3: "\<not> sublist [32, 32] (strip s2)"
  proof
    assume "sublist [32, 32] (strip s2)"
    then obtain a c where "strip s2 = a @ [32, 32] @ c"
      unfolding sublist_def by blast
    then have "s2 = (pre @ a) @ ([32, 32] @ (c @ post))"
      using d by simp
    then have "successively (\<lambda>a b. \<not> (a = 32 \<and> b = 32)) ((pre @ a) @ ([32, 32] @ (c @ post)))"
      using s2succ by simp
    then have "successively (\<lambda>a b. \<not> (a = 32 \<and> b = 32)) ([32, 32] @ (c @ post))"
      unfolding successively_append_iff by blast
    then show False by simp
  qed
  have 4: "strip s2 \<noteq> [] \<longrightarrow> \<not> is_space (hd (strip s2)) \<and> \<not> is_space (last (strip s2))"
    using strip_hd [of s2] strip_last [of s2] by blast
  from 1 2 3 4 show ?thesis unfolding b by blast
qed

lemma lower_from_sans_majuscule: "\<not> list_ex majuscule s \<Longrightarrow> lower_from pre s = s"
proof (induction s arbitrary: pre)
  case Nil
  show ?case by simp
next
  case (Cons x xs)
  have x: "\<not> majuscule x" and xs: "\<not> list_ex majuscule xs"
    using Cons.prems by simp_all
  have "majuscule 931" "majuscule 304"
    by (simp_all add: majuscule_def unicode)
  then have n: "x \<noteq> 931" "x \<noteq> 304"
    using x by auto
  have "tolower x = x"
  proof (cases "x < 256")
    case True
    then show ?thesis
      using x by (auto simp: tolower_def majuscule_def)
  next
    case False
    then have "find (in_rule x) lower_table = None"
      using x by (simp add: majuscule_def find_None_iff list_ex_iff)
    then show ?thesis
      using False by (simp add: tolower_def mapped_def)
  qed
  then show ?case
    using n Cons.IH [OF xs] by (simp add: lower_cp_def)
qed

lemma lower_from_majuscule: "list_ex majuscule s \<Longrightarrow> lower_from pre s \<noteq> s"
  using lower_from_minuscule [of pre s] by (auto simp: list_all_iff list_ex_iff)

text \<open>
  C3, as the code has it. The cleaned title has no hyphen and no underscore, its only white
  space is the plain space, never twice in a row and never at an end. \<open>simplifier_titre\<close>
  then applies \<open>str.capitalize\<close>: the first character of the cleaned title is put in title
  case and every other character is put in lower case. Whatever the title, no capital
  letter is left after the first character, and the result is the cleaned title with its
  first character capitalised exactly when the cleaned title has no capital letter after
  its first character. The title \<open>D\<close>e-acute\<open>veloppeur (CDI) - 35h\<close> becomes
  \<open>D\<close>e-acute\<open>veloppeur\<close>, \<open>MA\<close>I-circumflex\<open>TRE D'\<close>OE\<open>UVRE\<close> becomes
  \<open>Ma\<close>i-circumflex\<open>tre d'\<close>oe\<open>uvre\<close> and \<open>\<close>oe\<open>nologue\<close> becomes \<open>\<close>OE\<open>nologue\<close>.
\<close>

theorem simplifier_titre_capitalize:
  "(titre_clean t = [] \<longrightarrow> simplifier_titre (Str t) = [])
   \<and> (titre_clean t = c # cs \<longrightarrow>
        simplifier_titre (Str t) = title_cp c @ lower_from [c] cs
        \<and> list_all (\<lambda>x. \<not> majuscule x) (lower_from [c] cs))
   \<and> (simplifier_titre (Str t) = premiere_majuscule (titre_clean t))
       = (\<not> list_ex majuscule (tl (titre_clean t)))
   \<and> 45 \<notin> set (titre_clean t) \<and> 95 \<notin> set (titre_clean t)
   \<and> (\<forall>x \<in> set (titre_clean t). is_space x \<longrightarrow> x = 32)
   \<and> \<not> sublist [32, 32] (titre_clean t)
   \<and> (titre_clean t \<noteq> [] \<longrightarrow>
        \<not> is_space (hd (titre_clean t)) \<and> \<not> is_space (last (titre_clean t)))
   \<and> simplifier_titre (Str (u ''D'' @ [233] @ u ''veloppeur (CDI) - 35h''))
       = u ''D'' @ [233] @ u ''veloppeur''
   \<and> simplifier_titre (Str (u ''MA'' @ [206] @ u ''TRE D'' @ [39, 338] @ u ''UVRE''))
       = u ''Ma'' @ [238] @ u ''tre d'' @ [39, 339] @ u ''uvre''
   \<and> simplifier_titre (Str ([339] @ u ''nologue'')) = [338] @ u ''nologue''"
proof -
  have e1: "simplifier_titre (Str (u ''D'' @ [233] @ u ''veloppeur (CDI) - 35h''))
          = u ''D'' @ [233] @ u ''veloppeur''"
    by (simp add: tables chaines titre_defs)
  have e2: "simplifier_titre (Str (u ''MA'' @ [206] @ u ''TRE D'' @ [39, 338] @ u ''UVRE''))
          = u ''Ma'' @ [238] @ u ''tre d'' @ [39, 339] @ u ''uvre''"
    by (simp add: tables chaines titre_defs)
  have e3: "simplifier_titre (Str ([339] @ u ''nologue'')) = [338] @ u ''nologue''"
    by (simp add: tables chaines titre_defs)
  have vide: "titre_clean t = [] \<longrightarrow> simplifier_titre (Str t) = []"
    by (simp add: simplifier_titre_def capitalize_def)
  have forme: "titre_clean t = c # cs \<longrightarrow>
      simplifier_titre (Str t) = title_cp c @ lower_from [c] cs
      \<and> list_all (\<lambda>x. \<not> majuscule x) (lower_from [c] cs)"
    by (simp add: simplifier_titre_def capitalize_def lower_from_minuscule)
  have casse: "(simplifier_titre (Str t) = premiere_majuscule (titre_clean t))
      = (\<not> list_ex majuscule (tl (titre_clean t)))"
  proof (cases "titre_clean t")
    case Nil
    then show ?thesis
      by (simp add: simplifier_titre_def capitalize_def premiere_majuscule_def)
  next
    case (Cons d ds)
    have "(lower_from [d] ds = ds) = (\<not> list_ex majuscule ds)"
      using lower_from_sans_majuscule [of ds "[d]"] lower_from_majuscule [of ds "[d]"]
      by blast
    then show ?thesis
      using Cons by (simp add: simplifier_titre_def capitalize_def premiere_majuscule_def)
  qed
  from e1 e2 e3 vide forme casse show ?thesis
    using titre_clean_propre [of t] by blast
qed

theorem simplifier_titre_capitalize_witness:
  "titre_clean (u ''Data Analyst'') = u ''Data Analyst''
   \<and> simplifier_titre (Str (u ''Data Analyst'')) = u ''Data analyst''
   \<and> list_ex majuscule (tl (titre_clean (u ''Data Analyst'')))
   \<and> simplifier_titre (Str (u ''Data Analyst'')) \<noteq> premiere_majuscule (titre_clean (u ''Data Analyst''))
   \<and> 32 \<in> set (titre_clean (u ''Data Analyst''))
   \<and> \<not> is_space (hd (titre_clean (u ''Data Analyst'')))
   \<and> \<not> is_space (last (titre_clean (u ''Data Analyst'')))
   \<and> titre_clean (u ''CDI H/F'') = []
   \<and> simplifier_titre (Str (u ''CDI H/F'')) = []"
proof -
  have h: "titre_clean (u ''Data Analyst'') = 68 # u ''ata Analyst''"
    by (simp add: tables chaines titre_defs)
  have e: "titre_clean (u ''CDI H/F'') = []"
    by (simp add: tables chaines titre_defs)
  note t = simplifier_titre_capitalize [of "u ''Data Analyst''" 68 "u ''ata Analyst''"]
  have "simplifier_titre (Str (u ''Data Analyst''))
      = title_cp 68 @ lower_from [68] (u ''ata Analyst'')"
    using t h by blast
  then have 1: "simplifier_titre (Str (u ''Data Analyst'')) = u ''Data analyst''"
    by (simp add: tables)
  have "titre_clean (u ''Data Analyst'') \<noteq> []"
    using h by simp
  then have 2: "\<not> is_space (hd (titre_clean (u ''Data Analyst'')))
      \<and> \<not> is_space (last (titre_clean (u ''Data Analyst'')))"
    using t by blast
  have 3: "simplifier_titre (Str (u ''CDI H/F'')) = []"
    using simplifier_titre_capitalize [of "u ''CDI H/F''"] e by blast
  have 4: "32 \<in> set (titre_clean (u ''Data Analyst''))"
    unfolding h by (simp add: u_def)
  have 5: "list_ex majuscule (tl (titre_clean (u ''Data Analyst'')))"
    unfolding h by (simp add: u_def majuscule_def)
  then have 6: "simplifier_titre (Str (u ''Data Analyst''))
      \<noteq> premiere_majuscule (titre_clean (u ''Data Analyst''))"
    using t by blast
  from h 1 2 3 4 5 6 e show ?thesis
    by (simp add: u_def)
qed

text \<open>
  The claim as the specification states it, that the characters after the first keep
  their case, fails on \<open>Data Analyst\<close>: the cleaned title is \<open>Data Analyst\<close>, capitalising
  its first character alone leaves it unchanged, and the code returns \<open>Data analyst\<close>.
\<close>

theorem simplifier_titre_counterexample:
  "titre_clean (u ''Data Analyst'') = u ''Data Analyst''
   \<and> premiere_majuscule (titre_clean (u ''Data Analyst'')) = u ''Data Analyst''
   \<and> simplifier_titre (Str (u ''Data Analyst'')) = u ''Data analyst''
   \<and> simplifier_titre (Str (u ''Data Analyst''))
       \<noteq> premiere_majuscule (titre_clean (u ''Data Analyst''))"
  by (simp add: tables chaines titre_defs premiere_majuscule_def)

section \<open>The location\<close>

subsection \<open>The last separator\<close>

lemma rsplit_at_found:
  "j \<le> i \<Longrightarrow> prefix sep (drop j s) \<Longrightarrow> (\<forall>k. j < k \<and> k \<le> i \<longrightarrow> \<not> prefix sep (drop k s)) \<Longrightarrow>
     rsplit_at sep s i = [take j s, drop (j + length sep) s]"
proof (induction i)
  case 0
  then show ?case by simp
next
  case (Suc i)
  show ?case
  proof (cases "j = Suc i")
    case True
    then show ?thesis using Suc.prems by simp
  next
    case False
    then have "j \<le> i" using Suc.prems by simp
    moreover have "\<not> prefix sep (drop (Suc i) s)" using Suc.prems False by simp
    ultimately show ?thesis using Suc by simp
  qed
qed

lemma rsplit_at_none:
  "(\<forall>k \<le> i. \<not> prefix sep (drop k s)) \<Longrightarrow> rsplit_at sep s i = [s]"
  by (induction i) simp_all

lemma prefix_drop_sublist: "prefix sep (drop k s) \<Longrightarrow> sublist sep s"
proof -
  assume "prefix sep (drop k s)"
  then obtain r where "drop k s = sep @ r" by (auto simp: prefix_def)
  then have "s = take k s @ sep @ r" by (metis append_take_drop_id)
  then show ?thesis unfolding sublist_def by blast
qed

lemma rsplit1_none: "\<not> sublist sep s \<Longrightarrow> rsplit1 sep s = [s]"
  unfolding rsplit1_def using prefix_drop_sublist [of sep _ s]
  by (auto intro: rsplit_at_none)

lemma rsplit1_last:
  assumes s: "s = l @ sep @ r"
    and last: "\<forall>l' r'. s = l' @ sep @ r' \<longrightarrow> length l' \<le> length l"
  shows "rsplit1 sep s = [l, r]"
proof -
  have len: "length sep \<le> length s" using s by simp
  have 1: "length l \<le> length s - length sep" using s by simp
  have 2: "prefix sep (drop (length l) s)" using s by simp
  have 3: "\<forall>k. length l < k \<and> k \<le> length s - length sep \<longrightarrow> \<not> prefix sep (drop k s)"
  proof (intro allI impI notI)
    fix k
    assume k: "length l < k \<and> k \<le> length s - length sep" and "prefix sep (drop k s)"
    then obtain r' where "drop k s = sep @ r'" by (auto simp: prefix_def)
    then have "s = take k s @ sep @ r'" by (metis append_take_drop_id)
    with last have "length (take k s) \<le> length l" by blast
    moreover have "k \<le> length s" using k by arith
    then have "length (take k s) = k" by simp
    ultimately show False using k by simp
  qed
  have "rsplit_at sep s (length s - length sep) = [take (length l) s, drop (length l + length sep) s]"
    by (rule rsplit_at_found [OF 1 2 3])
  then show ?thesis
    using len s by (simp add: rsplit1_def)
qed

subsection \<open>The matches of the arrondissement pattern\<close>

lemma ends_ordinal_iff:
  "(q', s3) \<in> set (ends False ordinal (q, s2)) \<longleftrightarrow>
     (s2 = u ''er'' @ s3 \<and> q' = Some 114) \<or> (s2 = u ''e'' @ s3 \<and> q' = Some 101)
     \<or> (s2 = [232] @ u ''me'' @ s3 \<and> q' = Some 101)"
  unfolding ordinal_def
  by (auto simp: u_def split: list.splits if_splits)

lemma suffixe_arrondissement_iff:
  "suffixe_arrondissement t \<longleftrightarrow>
     (\<exists>w ds e. t = w # ds @ e \<and> is_space w \<and> ds \<noteq> [] \<and> list_all is_digit ds
        \<and> e \<in> {[], u ''er'', u ''e'', [232] @ u ''me''})"
proof
  assume a: "suffixe_arrondissement t"
  then obtain w rest where t: "t = w # rest"
    by (cases t) (auto simp: suffixe_arrondissement_def)
  let ?ds = "takeWhile is_digit rest" and ?e = "dropWhile is_digit rest"
  have "t = w # ?ds @ ?e" using t by simp
  moreover have "list_all is_digit ?ds"
    by (simp add: list_all_iff) (meson set_takeWhileD)
  moreover have "is_space w \<and> ?ds \<noteq> [] \<and> ?e \<in> {[], u ''er'', u ''e'', [232] @ u ''me''}"
    using a t by (simp add: suffixe_arrondissement_def)
  ultimately show "\<exists>w ds e. t = w # ds @ e \<and> is_space w \<and> ds \<noteq> [] \<and> list_all is_digit ds
        \<and> e \<in> {[], u ''er'', u ''e'', [232] @ u ''me''}"
    by blast
next
  assume "\<exists>w ds e. t = w # ds @ e \<and> is_space w \<and> ds \<noteq> [] \<and> list_all is_digit ds
        \<and> e \<in> {[], u ''er'', u ''e'', [232] @ u ''me''}"
  then obtain w ds e where t: "t = w # ds @ e" "is_space w" "ds \<noteq> []" "list_all is_digit ds"
    and e: "e \<in> {[], u ''er'', u ''e'', [232] @ u ''me''}"
    by blast
  have te: "takeWhile is_digit e = []" "dropWhile is_digit e = e"
    using e by (auto simp: u_def is_digit_def)
  have td: "takeWhile is_digit (ds @ e) = ds" "dropWhile is_digit (ds @ e) = e"
    using t(4) te by (simp_all add: list_all_iff)
  have "suffixe_arrondissement (w # ds @ e)
          = (is_space w \<and> takeWhile is_digit (ds @ e) \<noteq> []
             \<and> dropWhile is_digit (ds @ e) \<in> set [[], u ''er'', u ''e'', [232] @ u ''me''])"
    by (simp only: suffixe_arrondissement_def list.case)
  also have "\<dots> = (is_space w \<and> ds \<noteq> [] \<and> e \<in> set [[], u ''er'', u ''e'', [232] @ u ''me''])"
    by (simp only: td)
  finally show "suffixe_arrondissement t"
    using t e by simp
qed

lemma suffixe_arrondissement_tail:
  assumes "suffixe_arrondissement t"
  shows "t \<noteq> []" and "is_space (hd t)" and "tl t \<noteq> []" and "\<forall>x \<in> set (tl t). \<not> is_space x"
proof -
  obtain w ds e where t: "t = w # ds @ e" "is_space w" "ds \<noteq> []" "list_all is_digit ds"
    and e: "e \<in> {[], u ''er'', u ''e'', [232] @ u ''me''}"
    using assms unfolding suffixe_arrondissement_iff by blast
  show "t \<noteq> []" "is_space (hd t)" "tl t \<noteq> []" using t by simp_all
  have "\<forall>x \<in> set ds. \<not> is_space x"
    using t(4) digit_not_space by (auto simp: list_all_iff)
  moreover have "\<forall>x \<in> set e. \<not> is_space x"
    using e by (auto simp: u_def is_space_def)
  ultimately show "\<forall>x \<in> set (tl t). \<not> is_space x"
    using t by auto
qed

lemma motif_arrondissement_ordinal:
  "motif_arrondissement = Seq (Cls is_space) (Seq (Plus is_digit) (Seq (Opt ordinal) Eol))"
  by (simp add: motif_arrondissement_def ordinal_def)

lemma ends_arrondissement_sound:
  assumes "(q, s') \<in> set (ends False motif_arrondissement (p, s))"
  shows "\<exists>t. s = t @ s' \<and> suffixe_arrondissement t \<and> (s' = [] \<or> s' = [10])"
proof -
  from assms obtain m1 where m1: "m1 \<in> set (ends False (Cls is_space) (p, s))"
    and r1: "(q, s') \<in> set (ends False (Seq (Plus is_digit) (Seq (Opt ordinal) Eol)) m1)"
    unfolding motif_arrondissement_ordinal ends_Seq_iff [of _ _ "Cls is_space"] by blast
  from m1 obtain w s1 where s: "s = w # s1" "is_space w" "m1 = (Some w, s1)"
    unfolding ends_Cls_iff by blast
  from r1 obtain m2 where m2: "m2 \<in> set (ends False (Plus is_digit) (Some w, s1))"
    and r2: "(q, s') \<in> set (ends False (Seq (Opt ordinal) Eol) m2)"
    unfolding s ends_Seq_iff [of _ _ "Plus is_digit"] by blast
  obtain q2 s2 where m2e: "m2 = (q2, s2)" by (cases m2)
  from m2 obtain ds where ds: "ds \<noteq> []" "s1 = ds @ s2" "list_all is_digit ds"
    unfolding m2e ends_Plus_iff by blast
  from r2 obtain m3 where m3: "m3 \<in> set (ends False (Opt ordinal) (q2, s2))"
    and r3: "(q, s') \<in> set (ends False Eol m3)"
    unfolding m2e ends_Seq_iff [of _ _ "Opt ordinal"] by blast
  obtain q3 s3 where m3e: "m3 = (q3, s3)" by (cases m3)
  from r3 have e3: "s3 = s'" "s' = [] \<or> s' = [10]"
    unfolding m3e ends_Eol_iff by simp_all
  from m3 have "(q3, s') \<in> set (ends False ordinal (q2, s2)) \<or> s2 = s'"
    unfolding m3e ends_Opt_iff e3 by auto
  then obtain e where e: "s2 = e @ s'" "e \<in> {[], u ''er'', u ''e'', [232] @ u ''me''}"
    unfolding ends_ordinal_iff by auto
  have "s = (w # ds @ e) @ s'"
    using s ds e by simp
  moreover have "suffixe_arrondissement (w # ds @ e)"
    unfolding suffixe_arrondissement_iff using s ds e by blast
  ultimately show ?thesis using e3 by blast
qed

lemma ends_arrondissement_complete:
  assumes "suffixe_arrondissement t"
  shows "ends False motif_arrondissement (p, t) \<noteq> []"
proof -
  obtain w ds e where t: "t = w # ds @ e" "is_space w" "ds \<noteq> []" "list_all is_digit ds"
    and e: "e \<in> {[], u ''er'', u ''e'', [232] @ u ''me''}"
    using assms unfolding suffixe_arrondissement_iff by blast
  have 1: "(Some w, ds @ e) \<in> set (ends False (Cls is_space) (p, t))"
    unfolding ends_Cls_iff using t by simp
  have 2: "(Some (last ds), e) \<in> set (ends False (Plus is_digit) (Some w, ds @ e))"
    unfolding ends_Plus_iff using t by blast
  obtain q3 where 3: "(q3, []) \<in> set (ends False (Opt ordinal) (Some (last ds), e))"
    using e unfolding ends_Opt_iff ends_ordinal_iff by auto
  have 4: "(q3, []) \<in> set (ends False Eol (q3, []))"
    unfolding ends_Eol_iff by simp
  have "(q3, []) \<in> set (ends False (Seq (Opt ordinal) Eol) (Some (last ds), e))"
    unfolding ends_Seq_iff using 3 4 by blast
  then have "(q3, []) \<in> set (ends False (Seq (Plus is_digit) (Seq (Opt ordinal) Eol)) (Some w, ds @ e))"
    unfolding ends_Seq_iff [of _ _ "Plus is_digit"] using 2 by blast
  then have "(q3, []) \<in> set (ends False motif_arrondissement (p, t))"
    unfolding motif_arrondissement_ordinal ends_Seq_iff [of _ _ "Cls is_space"] using 1 by blast
  then show ?thesis by auto
qed

lemma suffixe_arrondissement_last:
  assumes "suffixe_arrondissement t"
  shows "\<not> is_space (last (c @ t))"
proof -
  note f = suffixe_arrondissement_tail [OF assms]
  have "last (c @ t) = last (tl t)"
    using f(1) f(3) by (cases t) simp_all
  moreover have "last (tl t) \<in> set (tl t)"
    using f(3) by simp
  ultimately show ?thesis
    using f(4) by simp
qed

lemma ends_arrondissement_end:
  assumes t: "suffixe_arrondissement t"
    and m: "(q, s') \<in> set (ends False motif_arrondissement (p, c @ t))"
  shows "c = [] \<and> s' = []"
proof -
  obtain t' where t': "c @ t = t' @ s'" "suffixe_arrondissement t'" "s' = [] \<or> s' = [10]"
    using ends_arrondissement_sound [OF m] by blast
  have s': "s' = []"
  proof (rule ccontr)
    assume "s' \<noteq> []"
    then have "s' = [10]" using t' by blast
    then have "last (c @ t) = 10" using t' by simp
    then show False using suffixe_arrondissement_last [OF t, of c] space_10 by simp
  qed
  have "c = []"
  proof (rule ccontr)
    assume "c \<noteq> []"
    then obtain x c' where c: "c = x # c'" by (cases c) auto
    then have "tl t' = c' @ t" using t' s' by (cases t') auto
    moreover have "hd t \<in> set t" using suffixe_arrondissement_tail(1) [OF t] by simp
    ultimately have "hd t \<in> set (tl t')" by simp
    then show False
      using suffixe_arrondissement_tail(4) [OF t'(2)] suffixe_arrondissement_tail(2) [OF t]
      by blast
  qed
  then show ?thesis using s' by simp
qed

lemma sub_from_arrondissement:
  assumes t: "suffixe_arrondissement t"
  shows "sub_from False motif_arrondissement [] p (c @ t) = c"
proof (induction c arbitrary: p)
  case Nil
  obtain x xs where tx: "t = x # xs"
    using suffixe_arrondissement_tail(1) [OF t] by (cases t) auto
  obtain q s' rest where e: "ends False motif_arrondissement (p, t) = (q, s') # rest"
    using ends_arrondissement_complete [OF t, of p]
    by (cases "ends False motif_arrondissement (p, t)") auto
  then have "(q, s') \<in> set (ends False motif_arrondissement (p, [] @ t))" by simp
  then have "s' = []" using ends_arrondissement_end [OF t] by blast
  moreover have "ends False motif_arrondissement (q, []) = []"
    by (simp add: motif_arrondissement_def)
  ultimately show ?case
    using e tx by simp
next
  case (Cons x c)
  have "ends False motif_arrondissement (p, (x # c) @ t) = []"
  proof (rule ccontr)
    assume "ends False motif_arrondissement (p, (x # c) @ t) \<noteq> []"
    then obtain m where "m \<in> set (ends False motif_arrondissement (p, (x # c) @ t))"
      by (meson last_in_set)
    then show False
      using ends_arrondissement_end [OF t, of "fst m" "snd m" p "x # c"] by simp
  qed
  then show ?case using Cons.IH by simp
qed

lemma sub_from_sans_arrondissement:
  assumes "\<forall>c t. strip x = c @ t \<longrightarrow> \<not> suffixe_arrondissement t"
  shows "sub_from False motif_arrondissement [] p (strip x) = strip x"
proof (rule sub_from_no_match)
  fix p k
  show "ends False motif_arrondissement (p, drop k (strip x)) = []"
  proof (rule ccontr)
    assume "ends False motif_arrondissement (p, drop k (strip x)) \<noteq> []"
    then obtain m where "m \<in> set (ends False motif_arrondissement (p, drop k (strip x)))"
      by (meson last_in_set)
    then obtain t s' where d: "drop k (strip x) = t @ s'" "suffixe_arrondissement t"
      "s' = [] \<or> s' = [10]"
      using ends_arrondissement_sound [of "fst m" "snd m" p "drop k (strip x)"] by auto
    have sx: "strip x = take k (strip x) @ t @ s'"
      using d(1) by (metis append_take_drop_id)
    show False
    proof (cases "s' = []")
      case True
      then show ?thesis using sx d(2) assms by auto
    next
      case False
      then have "s' = [10]" using d by blast
      then have "strip x = (take k (strip x) @ t) @ [10]" using sx by simp
      then obtain ys where "strip x = ys @ [10]" by blast
      then have "strip x \<noteq> []" "last (strip x) = 10" by simp_all
      then show ?thesis using strip_last [of x] space_10 by simp
    qed
  qed
qed

text \<open>
  C7. When the text is \<open>l\<close>, the separator and \<open>r\<close>, and the separator occurs nowhere
  further to the right, the city is \<open>l\<close> stripped and the department \<open>r\<close> stripped; when the
  separator does not occur, the city is the whole text stripped and the department is
  \<open>France\<close>. In both cases the substitution then removes from the city a suffix made of a
  white space, digits and nothing, \<open>er\<close>, \<open>e\<close> or \<open>\<close>e-grave\<open>me\<close>, and leaves a city without
  such a suffix as it is.
\<close>

theorem separer_localisation_dernier_separateur:
  "(s = l @ u '' - '' @ r \<and> (\<forall>l' r'. s = l' @ u '' - '' @ r' \<longrightarrow> length l' \<le> length l) \<longrightarrow>
      separer_localisation (Str s)
        = (re_sub False motif_arrondissement [] (strip l), strip r))
   \<and> (\<not> sublist (u '' - '') s \<longrightarrow>
        separer_localisation (Str s)
          = (re_sub False motif_arrondissement [] (strip s), u ''France''))
   \<and> (suffixe_arrondissement t \<longrightarrow> re_sub False motif_arrondissement [] (c @ t) = c)
   \<and> ((\<forall>c t. strip x = c @ t \<longrightarrow> \<not> suffixe_arrondissement t) \<longrightarrow>
        re_sub False motif_arrondissement [] (strip x) = strip x)
   \<and> separer_localisation (Str (u ''Paris 15e - 75'')) = (u ''Paris'', u ''75'')
   \<and> separer_localisation (Str (u ''Lyon'')) = (u ''Lyon'', u ''France'')"
proof -
  have 1: "separer_localisation (Str s)
        = (re_sub False motif_arrondissement [] (strip l), strip r)"
    if "s = l @ u '' - '' @ r \<and> (\<forall>l' r'. s = l' @ u '' - '' @ r' \<longrightarrow> length l' \<le> length l)"
  proof -
    have "rsplit1 (u '' - '') s = [l, r]"
      using that by (intro rsplit1_last) blast+
    then show ?thesis by (simp add: separer_localisation_def)
  qed
  have 2: "separer_localisation (Str s)
          = (re_sub False motif_arrondissement [] (strip s), u ''France'')"
    if "\<not> sublist (u '' - '') s"
    using rsplit1_none [OF that] by (simp add: separer_localisation_def)
  have 3: "re_sub False motif_arrondissement [] (c @ t) = c" if "suffixe_arrondissement t"
    unfolding re_sub_def using that by (rule sub_from_arrondissement)
  have 4: "re_sub False motif_arrondissement [] (strip x) = strip x"
    if "\<forall>c t. strip x = c @ t \<longrightarrow> \<not> suffixe_arrondissement t"
    unfolding re_sub_def using that by (rule sub_from_sans_arrondissement)
  have 5: "separer_localisation (Str (u ''Paris 15e - 75'')) = (u ''Paris'', u ''75'')"
    by (simp add: pipeline_defs tables chaines)
  have 6: "separer_localisation (Str (u ''Lyon'')) = (u ''Lyon'', u ''France'')"
    by (simp add: pipeline_defs tables chaines)
  from 1 2 3 4 5 6 show ?thesis by blast
qed

lemma dernier_separateur_exemple:
  "\<forall>l' r'. u ''Lyon 3e - 69'' = l' @ u '' - '' @ r' \<longrightarrow> length l' \<le> length (u ''Lyon 3e'')"
proof (intro allI impI)
  fix l' r'
  assume a: "u ''Lyon 3e - 69'' = l' @ u '' - '' @ r'"
  then have "length (u ''Lyon 3e - 69'') = length l' + length (u '' - '') + length r'"
    by simp
  then have len: "length l' \<le> 9" by (simp add: u_def)
  have p: "prefix (u '' - '') (drop (length l') (u ''Lyon 3e - 69''))"
    unfolding a by simp
  have "length l' \<noteq> 8" "length l' \<noteq> 9"
    using p by (auto simp: u_def)
  then show "length l' \<le> length (u ''Lyon 3e'')"
    using len by (simp add: u_def)
qed

theorem separer_localisation_dernier_separateur_witness:
  "separer_localisation (Str (u ''Lyon 3e - 69'')) = (u ''Lyon'', u ''69'')
   \<and> suffixe_arrondissement (u '' 3e'')
   \<and> re_sub False motif_arrondissement [] (u ''Lyon'' @ u '' 3e'') = u ''Lyon''
   \<and> \<not> sublist (u '' - '') (u ''Nantes'')
   \<and> separer_localisation (Str (u ''Nantes'')) = (u ''Nantes'', u ''France'')
   \<and> re_sub False motif_arrondissement [] (strip (u ''Nantes'')) = strip (u ''Nantes'')"
proof -
  note t = separer_localisation_dernier_separateur [where s = "u ''Lyon 3e - 69''"
      and l = "u ''Lyon 3e''" and r = "u ''69''" and t = "u '' 3e''" and c = "u ''Lyon''"
      and x = "u ''Nantes''"]
  note t' = separer_localisation_dernier_separateur [where s = "u ''Nantes''"]
  have h1: "u ''Lyon 3e - 69'' = u ''Lyon 3e'' @ u '' - '' @ u ''69''"
    by (simp add: u_def)
  have h2: "\<not> sublist (u '' - '') (u ''Nantes'')"
    by (simp add: u_def sublist_code)
  have h3: "suffixe_arrondissement (u '' 3e'')"
    by (simp add: suffixe_arrondissement_def tables)
  have n: "strip (u ''Nantes'') = u ''Nantes''"
    by (simp add: tables chaines)
  have h4: "\<forall>c t. strip (u ''Nantes'') = c @ t \<longrightarrow> \<not> suffixe_arrondissement t"
  proof (intro allI impI)
    fix c t
    assume "strip (u ''Nantes'') = c @ t"
    then have "set t \<subseteq> set (u ''Nantes'')"
      unfolding n by (metis Un_upper2 set_append)
    then show "\<not> suffixe_arrondissement t"
      by (cases t) (auto simp: suffixe_arrondissement_def tables)
  qed
  have "separer_localisation (Str (u ''Lyon 3e - 69''))
          = (re_sub False motif_arrondissement [] (strip (u ''Lyon 3e'')), strip (u ''69''))"
    using t h1 dernier_separateur_exemple by blast
  moreover have "re_sub False motif_arrondissement [] (strip (u ''Lyon 3e'')) = u ''Lyon''"
    "strip (u ''69'') = u ''69''"
    by (simp_all add: tables chaines motif_arrondissement_def ordinal_def)
  moreover have "re_sub False motif_arrondissement [] (u ''Lyon'' @ u '' 3e'') = u ''Lyon''"
    using t h3 by blast
  moreover have 4: "re_sub False motif_arrondissement [] (strip (u ''Nantes'')) = strip (u ''Nantes'')"
    using t h4 by blast
  moreover have "separer_localisation (Str (u ''Nantes''))
          = (re_sub False motif_arrondissement [] (strip (u ''Nantes'')), u ''France'')"
    using t' h2 by blast
  ultimately show ?thesis
    using h2 h3 n by simp
qed

section \<open>The pipeline\<close>

lemma drop_duplicates_from_keys:
  "set (map key (drop_duplicates_from key seen xs)) = set (map key xs) - set seen"
  by (induction xs arbitrary: seen) auto

lemma drop_duplicates_from_subseq: "subseq (drop_duplicates_from key seen xs) xs"
  by (induction xs arbitrary: seen) auto

lemma drop_duplicates_from_distinct: "distinct (map key (drop_duplicates_from key seen xs))"
proof (induction xs arbitrary: seen)
  case Nil
  then show ?case by simp
next
  case (Cons x xs)
  have "key x \<notin> set (map key (drop_duplicates_from key (key x # seen) xs))"
    unfolding drop_duplicates_from_keys by simp
  with Cons show ?case by simp
qed

lemma drop_duplicates_from_first:
  "r \<in> set (drop_duplicates_from key seen xs) \<Longrightarrow> find (\<lambda>x. key x = key r) xs = Some r"
proof (induction xs arbitrary: seen)
  case Nil
  then show ?case by simp
next
  case (Cons x xs)
  show ?case
  proof (cases "key x \<in> set seen")
    case True
    with Cons.prems have r: "r \<in> set (drop_duplicates_from key seen xs)" by simp
    then have "key r \<in> set (map key (drop_duplicates_from key seen xs))" by simp
    then have "key r \<notin> set seen" unfolding drop_duplicates_from_keys by simp
    with True have "key x \<noteq> key r" by auto
    with Cons.IH [OF r] show ?thesis by simp
  next
    case False
    show ?thesis
    proof (cases "r = x")
      case True
      then show ?thesis by simp
    next
      case neq: False
      with False Cons.prems have r: "r \<in> set (drop_duplicates_from key (key x # seen) xs)"
        by simp
      then have "key r \<in> set (map key (drop_duplicates_from key (key x # seen) xs))" by simp
      then have "key r \<noteq> key x" unfolding drop_duplicates_from_keys by auto
      with Cons.IH [OF r] show ?thesis by simp
    qed
  qed
qed

text \<open>
  C9. The table written is the table of the transformed rows without the rows whose key
  (\<open>Titre_Simplifie\<close>, \<open>Entreprise\<close>, \<open>Ville\<close>) an earlier row has: the rows kept stand in
  their original order, no two of them have the same key, every key of the input is the key
  of a row kept, and a row kept is the first row of the input with its key, so it has the
  \<open>Departement\<close>, \<open>Contrat\<close> and \<open>Salaire_Annuel\<close> of that row. Two rows with the same key
  give one row, the first: the offers \<open>offre_a\<close> and \<open>offre_b\<close>, which differ by their
  links, contracts and salaries, give the row of \<open>offre_a\<close>.
\<close>

theorem lancer_traitement_final_dedoublonnage:
  "lancer_traitement_final (Some df) = Some out \<Longrightarrow>
     subseq out (map transformer df)
     \<and> distinct (map cle out)
     \<and> set (map cle out) = set (map cle (map transformer df))
     \<and> (\<forall>r \<in> set out. find (\<lambda>x. cle x = cle r) (map transformer df) = Some r)
     \<and> (cle (transformer r1) = cle (transformer r2) \<longrightarrow>
          lancer_traitement_final (Some [r1, r2]) = Some [transformer r1])
     \<and> Lien offre_a \<noteq> Lien offre_b
     \<and> lancer_traitement_final (Some [offre_a, offre_b, offre_c])
         = Some [\<lparr>Titre_Simplifie = u ''Data analyst'', Entreprise = Str (u ''ACME''),
                   Ville = u ''Paris'', Departement = u ''75'', Contrat = Str (u ''CDI''),
                   Salaire_Annuel = Some 35000\<rparr>,
                 \<lparr>Titre_Simplifie = u ''Comptable'', Entreprise = Str (u ''ACME''),
                   Ville = u ''Lyon'', Departement = u ''France'', Contrat = Str (u ''CDI''),
                   Salaire_Annuel = Some 24000\<rparr>]"
proof -
  assume h: "lancer_traitement_final (Some df) = Some out"
  then have out: "out = drop_duplicates_from cle [] (map transformer df)"
    by (simp add: lancer_traitement_final_def drop_duplicates_def)
  have 1: "subseq out (map transformer df)"
    unfolding out by (rule drop_duplicates_from_subseq)
  have 2: "distinct (map cle out)"
    unfolding out by (rule drop_duplicates_from_distinct)
  have 3: "set (map cle out) = set (map cle (map transformer df))"
    unfolding out drop_duplicates_from_keys by simp
  have 4: "\<forall>r \<in> set out. find (\<lambda>x. cle x = cle r) (map transformer df) = Some r"
    unfolding out by (simp add: drop_duplicates_from_first)
  have 5: "cle (transformer r1) = cle (transformer r2) \<longrightarrow>
          lancer_traitement_final (Some [r1, r2]) = Some [transformer r1]"
    by (simp add: lancer_traitement_final_def drop_duplicates_def)
  have 6: "Lien offre_a \<noteq> Lien offre_b"
    by (simp add: offres u_def)
  have 7: "lancer_traitement_final (Some [offre_a, offre_b, offre_c])
         = Some [\<lparr>Titre_Simplifie = u ''Data analyst'', Entreprise = Str (u ''ACME''),
                   Ville = u ''Paris'', Departement = u ''75'', Contrat = Str (u ''CDI''),
                   Salaire_Annuel = Some 35000\<rparr>,
                 \<lparr>Titre_Simplifie = u ''Comptable'', Entreprise = Str (u ''ACME''),
                   Ville = u ''Lyon'', Departement = u ''France'', Contrat = Str (u ''CDI''),
                   Salaire_Annuel = Some 24000\<rparr>]"
    by (simp add: offres pipeline_defs tables chaines titre_defs salaire_defs)
  from 1 2 3 4 5 6 7 show ?thesis by blast
qed

theorem lancer_traitement_final_dedoublonnage_witness:
  "length (the (lancer_traitement_final (Some [offre_a, offre_b, offre_c]))) = 2
   \<and> distinct (map cle (the (lancer_traitement_final (Some [offre_a, offre_b, offre_c]))))
   \<and> lancer_traitement_final (Some [offre_a, offre_b]) = Some [transformer offre_a]"
proof -
  obtain out where h: "lancer_traitement_final (Some [offre_a, offre_b, offre_c]) = Some out"
    by (simp add: lancer_traitement_final_def)
  have k: "cle (transformer offre_a) = cle (transformer offre_b)"
    by (simp add: offres pipeline_defs tables chaines titre_defs)
  note t = lancer_traitement_final_dedoublonnage [OF h, of offre_a offre_b]
  have "length out = 2"
    using t h by simp
  moreover have "distinct (map cle out)"
    using t by blast
  moreover have "lancer_traitement_final (Some [offre_a, offre_b]) = Some [transformer offre_a]"
    using t k by blast
  ultimately show ?thesis
    using h by simp
qed

lemma extraire_titre:
  "extraire c = Some r \<Longrightarrow> \<exists>t. Titre r = Str t \<and> t \<noteq> []"
  unfolding extraire_def Let_def
  by (auto split: option.splits prod.splits if_splits)

text \<open>
  C10. Every offer read from a card has a title that is a non-empty string. The card
  \<open>carte_bruit\<close> gives the offer \<open>offre_bruit\<close>, whose title \<open>CDI H/F\<close> is not empty;
  \<open>simplifier_titre\<close> turns this title into the empty string, and the pipeline keeps the
  row, with an empty \<open>Titre_Simplifie\<close> in its key.
\<close>

theorem titre_simplifie_vide:
  "(extraire c = Some r \<longrightarrow> (\<exists>t. Titre r = Str t \<and> t \<noteq> []))
   \<and> extraire carte_bruit = Some offre_bruit
   \<and> Titre offre_bruit = Str (u ''CDI H/F'')
   \<and> u ''CDI H/F'' \<noteq> []
   \<and> simplifier_titre (Str (u ''CDI H/F'')) = []
   \<and> lancer_traitement_final (Some [offre_bruit])
       = Some [\<lparr>Titre_Simplifie = [], Entreprise = Str (u ''ACME''), Ville = u ''Lyon'',
                 Departement = u ''69'', Contrat = Str (u ''CDI''), Salaire_Annuel = None\<rparr>]
   \<and> cle \<lparr>Titre_Simplifie = [], Entreprise = Str (u ''ACME''), Ville = u ''Lyon'',
            Departement = u ''69'', Contrat = Str (u ''CDI''), Salaire_Annuel = None\<rparr>
       = ([], Str (u ''ACME''), u ''Lyon'')"
proof -
  have "extraire carte_bruit = Some offre_bruit"
    by (simp add: offres extraire_def tables chaines motif_salaire_def)
  moreover have "simplifier_titre (Str (u ''CDI H/F'')) = []"
    by (simp add: tables chaines titre_defs)
  moreover have "lancer_traitement_final (Some [offre_bruit])
       = Some [\<lparr>Titre_Simplifie = [], Entreprise = Str (u ''ACME''), Ville = u ''Lyon'',
                 Departement = u ''69'', Contrat = Str (u ''CDI''), Salaire_Annuel = None\<rparr>]"
    by (simp add: offres pipeline_defs tables chaines titre_defs salaire_defs)
  moreover have "extraire c = Some r \<longrightarrow> (\<exists>t. Titre r = Str t \<and> t \<noteq> [])"
    using extraire_titre by blast
  ultimately show ?thesis
    by (simp add: offres cle_def u_def)
qed

theorem titre_simplifie_vide_witness:
  "extraire carte_bruit = Some offre_bruit
   \<and> (\<exists>t. Titre offre_bruit = Str t \<and> t \<noteq> [])"
  using titre_simplifie_vide [of carte_bruit offre_bruit] by blast

section \<open>The harvest\<close>

lemma extraire_carte_bruit: "extraire carte_bruit = Some offre_bruit"
  by (simp add: offres extraire_def tables chaines motif_salaire_def)

lemma parcourir_borne:
  "length d < OBJECTIF \<Longrightarrow> length (parcourir cs d) \<le> OBJECTIF"
  by (induction cs arbitrary: d) (auto split: option.splits)

lemma parcourir_prefix: "prefix d (parcourir cs d)"
proof (induction cs arbitrary: d)
  case Nil
  then show ?case by simp
next
  case (Cons c cs)
  show ?case
  proof (cases "extraire c")
    case None
    then show ?thesis using Cons by simp
  next
    case (Some r)
    have "prefix d (d @ [r])" by simp
    moreover have "prefix (d @ [r]) (parcourir cs (d @ [r]))" by (rule Cons)
    ultimately have "prefix d (parcourir cs (d @ [r]))" by (rule prefix_order.trans)
    then show ?thesis using Some by simp
  qed
qed

lemma boucle_borne:
  "length d \<le> OBJECTIF \<Longrightarrow> boucle k nav p d j = Some (i, d', j') \<Longrightarrow> length d' \<le> OBJECTIF"
proof (induction k arbitrary: p d j)
  case 0
  then show ?case by simp
next
  case (Suc k)
  show ?case
  proof (cases "length d < OBJECTIF")
    case True
    then show ?thesis
      using Suc.prems Suc.IH parcourir_borne [OF True]
      by (auto split: option.splits if_splits)
  next
    case False
    then show ?thesis using Suc.prems by simp
  qed
qed

lemma lancer_borne:
  "lancer_scraping_france k nav = Some (i, d, j) \<Longrightarrow> length d \<le> OBJECTIF"
  unfolding lancer_scraping_france_def
  using boucle_borne [of "[]" k nav 1 "[Session, Get 1, Pause, Cookies]"]
  by (auto split: if_splits option.splits issue.splits)

text \<open>
  C6. On every page, an accumulator below the target stays at or below it, and the page
  only appends to it; the record that brings the count to the target is the last one read
  of the page. So the loop never holds more than \<open>OBJECTIF\<close> records and a run that ends
  with at least \<open>OBJECTIF\<close> records ends with exactly that many.
\<close>

theorem objectif_jamais_depasse:
  "(length d < OBJECTIF \<longrightarrow> length (parcourir cs d) \<le> OBJECTIF)
   \<and> prefix d (parcourir cs d)
   \<and> (extraire c = Some r \<and> Suc (length d) = OBJECTIF \<longrightarrow> parcourir (c # cs) d = d @ [r])
   \<and> (length d \<le> OBJECTIF \<and> boucle k nav p d j = Some (i, d', j') \<longrightarrow> length d' \<le> OBJECTIF)
   \<and> (lancer_scraping_france k nav = Some (i, d', j') \<longrightarrow>
        length d' \<le> OBJECTIF \<and> (OBJECTIF \<le> length d' \<longrightarrow> length d' = OBJECTIF))"
proof -
  have "length d' \<le> OBJECTIF" if "lancer_scraping_france k nav = Some (i, d', j')"
    using that by (rule lancer_borne)
  moreover have "length d' \<le> OBJECTIF"
    if "length d \<le> OBJECTIF \<and> boucle k nav p d j = Some (i, d', j')"
    using that boucle_borne by blast
  moreover have "parcourir (c # cs) d = d @ [r]"
    if "extraire c = Some r \<and> Suc (length d) = OBJECTIF"
    using that by simp
  ultimately show ?thesis
    using parcourir_borne [of d cs] parcourir_prefix [of d cs] by (simp add: le_antisym)
qed

lemma parcourir_replicate:
  "extraire c = Some r \<Longrightarrow> length d < OBJECTIF \<Longrightarrow>
     parcourir (replicate n c) d = d @ replicate (min n (OBJECTIF - length d)) r"
proof (induction n arbitrary: d)
  case 0
  then show ?case by simp
next
  case (Suc n)
  show ?case
  proof (cases "Suc (length d) < OBJECTIF")
    case True
    then have "parcourir (replicate (Suc n) c) d = parcourir (replicate n c) (d @ [r])"
      using Suc.prems by simp
    also have "\<dots> = (d @ [r]) @ replicate (min n (OBJECTIF - length (d @ [r]))) r"
      using True by (intro Suc.IH Suc.prems) simp
    also have "\<dots> = d @ replicate (Suc (min n (OBJECTIF - length (d @ [r])))) r"
      by simp
    also have "Suc (min n (OBJECTIF - length (d @ [r]))) = min (Suc n) (OBJECTIF - length d)"
      using True by (simp add: min_def) linarith
    finally show ?thesis .
  next
    case False
    with Suc.prems have "OBJECTIF - length d = 1" by simp
    then show ?thesis using Suc.prems False by (simp add: min_def)
  qed
qed

lemma serpCards_nav_30: "serpCards nav_30 p = Some (replicate 30 carte_bruit)"
  and get_ok_nav_30: "get_ok nav_30 p"
  by (simp_all add: nav_30_def)

lemma parcourir_nav_30:
  "m \<le> 33 \<Longrightarrow>
     parcourir (replicate 30 carte_bruit) (replicate (30 * m) offre_bruit)
       = replicate (min 1000 (30 * Suc m)) offre_bruit"
proof -
  assume m: "m \<le> 33"
  have "parcourir (replicate 30 carte_bruit) (replicate (30 * m) offre_bruit)
          = replicate (30 * m) offre_bruit
              @ replicate (min 30 (OBJECTIF - length (replicate (30 * m) offre_bruit))) offre_bruit"
    using m by (intro parcourir_replicate extraire_carte_bruit) (simp add: OBJECTIF_def)
  also have "\<dots> = replicate (30 * m + min 30 (1000 - 30 * m)) offre_bruit"
    by (simp add: OBJECTIF_def replicate_add)
  also have "30 * m + min 30 (1000 - 30 * m) = min 1000 (30 * Suc m)"
    using m by arith
  finally show ?thesis .
qed

lemma boucle_page:
  "length d < OBJECTIF \<Longrightarrow> serpCards nav p = Some cs \<Longrightarrow> cs \<noteq> [] \<Longrightarrow> get_ok nav (p + 1) \<Longrightarrow>
     boucle (Suc k) nav p d j
       = boucle k nav (p + 1) (parcourir cs d) (j @ [Cartes p, Get (p + 1), Pause])"
  by simp

lemma boucle_objectif:
  "\<not> length d < OBJECTIF \<Longrightarrow> boucle (Suc k) nav p d j = Some (Termine, d, j)"
  by simp

lemma boucle_nav_30_page:
  "m \<le> 33 \<Longrightarrow>
     boucle (Suc k) nav_30 (Suc m) (replicate (30 * m) offre_bruit) j
       = boucle k nav_30 (Suc (Suc m)) (replicate (min 1000 (30 * Suc m)) offre_bruit)
           (j @ [Cartes (Suc m), Get (Suc (Suc m)), Pause])"
proof -
  assume m: "m \<le> 33"
  have "boucle (Suc k) nav_30 (Suc m) (replicate (30 * m) offre_bruit) j
       = boucle k nav_30 (Suc m + 1)
           (parcourir (replicate 30 carte_bruit) (replicate (30 * m) offre_bruit))
           (j @ [Cartes (Suc m), Get (Suc m + 1), Pause])"
    using m by (intro boucle_page serpCards_nav_30 get_ok_nav_30) (simp_all add: OBJECTIF_def)
  then show ?thesis
    using parcourir_nav_30 [OF m] by simp
qed

lemma boucle_nav_30:
  "n \<le> 33 \<Longrightarrow>
     boucle (Suc (Suc (n + e))) nav_30 (34 - n) (replicate (30 * (33 - n)) offre_bruit) j
       = Some (Termine, replicate 1000 offre_bruit,
               j @ concat (map (\<lambda>q. [Cartes q, Get (q + 1), Pause]) [34 - n..<35]))"
proof (induction n arbitrary: j)
  case 0
  have "boucle (Suc (Suc e)) nav_30 (Suc 33) (replicate (30 * 33) offre_bruit) j
          = boucle (Suc e) nav_30 (Suc (Suc 33)) (replicate (min 1000 (30 * Suc 33)) offre_bruit)
              (j @ [Cartes (Suc 33), Get (Suc (Suc 33)), Pause])"
    by (rule boucle_nav_30_page) simp
  also have "\<dots> = Some (Termine, replicate (min 1000 (30 * Suc 33)) offre_bruit,
      j @ [Cartes (Suc 33), Get (Suc (Suc 33)), Pause])"
    by (rule boucle_objectif) (simp add: OBJECTIF_def)
  finally show ?case
    by (simp del: boucle.simps)
next
  case (Suc n)
  then have n: "n \<le> 32" by simp
  have a: "34 - Suc n = Suc (32 - n)" "34 - n = Suc (Suc (32 - n))" "33 - Suc n = 32 - n"
    "33 - n = Suc (32 - n)"
    using n by arith+
  have u: "[Suc (32 - n)..<35] = Suc (32 - n) # [Suc (Suc (32 - n))..<35]"
    by (rule upt_conv_Cons) simp
  have m: "min 1000 (30 * Suc (32 - n)) = 30 * Suc (32 - n)"
    using n by arith
  have "boucle (Suc (Suc (Suc n + e))) nav_30 (Suc (32 - n))
          (replicate (30 * (32 - n)) offre_bruit) j
        = boucle (Suc (Suc (n + e))) nav_30 (Suc (Suc (32 - n)))
            (replicate (min 1000 (30 * Suc (32 - n))) offre_bruit)
            (j @ [Cartes (Suc (32 - n)), Get (Suc (Suc (32 - n))), Pause])"
    using boucle_nav_30_page [of "32 - n" "Suc (Suc (n + e))" j]
    by (simp del: boucle.simps)
  also have "\<dots> = Some (Termine, replicate 1000 offre_bruit,
       (j @ [Cartes (Suc (32 - n)), Get (Suc (Suc (32 - n))), Pause])
         @ concat (map (\<lambda>q. [Cartes q, Get (q + 1), Pause]) [Suc (Suc (32 - n))..<35]))"
  proof -
    have "n \<le> 33" using n by simp
    from Suc.IH [OF this] show ?thesis
      unfolding a m by (simp del: boucle.simps)
  qed
  finally show ?case
    unfolding a u by (simp del: boucle.simps)
qed

lemma lancer_nav_30:
  "lancer_scraping_france (Suc (Suc (33 + e))) nav_30
     = Some (Termine, replicate 1000 offre_bruit,
             [Session, Get 1, Pause, Cookies] @ concat (map (\<lambda>q. [Cartes q, Get (q + 1), Pause]) [1..<35])
               @ [Quit, Export 1000])"
proof -
  have "boucle (Suc (Suc (33 + e))) nav_30 (34 - 33) (replicate (30 * (33 - 33)) offre_bruit)
          [Session, Get 1, Pause, Cookies]
        = Some (Termine, replicate 1000 offre_bruit,
                [Session, Get 1, Pause, Cookies]
                  @ concat (map (\<lambda>q. [Cartes q, Get (q + 1), Pause]) [34 - 33..<35]))"
    by (rule boucle_nav_30) simp
  then have "boucle (Suc (Suc (33 + e))) nav_30 1 [] [Session, Get 1, Pause, Cookies]
        = Some (Termine, replicate 1000 offre_bruit,
                [Session, Get 1, Pause, Cookies] @ concat (map (\<lambda>q. [Cartes q, Get (q + 1), Pause]) [1..<35]))"
    by (simp del: boucle.simps upt_Suc)
  then show ?thesis
    unfolding lancer_scraping_france_def
    by (simp add: nav_30_def del: boucle.simps upt_Suc)
qed

theorem objectif_jamais_depasse_witness:
  "lancer_scraping_france 40 nav_30
     = Some (Termine, replicate 1000 offre_bruit,
             [Session, Get 1, Pause, Cookies]
               @ concat (map (\<lambda>q. [Cartes q, Get (q + 1), Pause]) [1..<35])
               @ [Quit, Export 1000])
   \<and> length (replicate 1000 offre_bruit) = OBJECTIF
   \<and> parcourir (carte_bruit # replicate 20 carte_bruit) (replicate 999 offre_bruit)
       = replicate 999 offre_bruit @ [offre_bruit]
   \<and> length (parcourir (replicate 20 carte_bruit) (replicate 999 offre_bruit)) \<le> OBJECTIF
   \<and> boucle 2 nav_30 34 (replicate 990 offre_bruit) []
       = Some (Termine, replicate 1000 offre_bruit, [Cartes 34, Get 35, Pause])"
proof -
  have f: "Suc (Suc (33 + 5)) = (40 :: nat)"
    by simp
  have run: "lancer_scraping_france 40 nav_30
     = Some (Termine, replicate 1000 offre_bruit,
             [Session, Get 1, Pause, Cookies]
               @ concat (map (\<lambda>q. [Cartes q, Get (q + 1), Pause]) [1..<35])
               @ [Quit, Export 1000])"
    using lancer_nav_30 [of 5] unfolding f .
  have "boucle (Suc (Suc (0 + 0))) nav_30 (34 - 0) (replicate (30 * (33 - 0)) offre_bruit) []
       = Some (Termine, replicate 1000 offre_bruit,
               [] @ concat (map (\<lambda>q. [Cartes q, Get (q + 1), Pause]) [34 - 0..<35]))"
    by (rule boucle_nav_30) simp
  moreover have "[34..<35] = [34 :: nat]"
    by (simp add: upt_rec)
  ultimately have b: "boucle 2 nav_30 34 (replicate 990 offre_bruit) []
       = Some (Termine, replicate 1000 offre_bruit, [Cartes 34, Get 35, Pause])"
    by (simp del: boucle.simps upt_Suc add: numeral_2_eq_2)
  have e: "extraire carte_bruit = Some offre_bruit \<and> Suc (length (replicate 999 offre_bruit)) = OBJECTIF"
    by (simp add: extraire_carte_bruit OBJECTIF_def)
  have l: "length (replicate 999 offre_bruit) < OBJECTIF"
    "length (replicate 990 offre_bruit) \<le> OBJECTIF"
    by (simp_all add: OBJECTIF_def)
  note t = objectif_jamais_depasse [where d = "replicate 999 offre_bruit"
      and cs = "replicate 20 carte_bruit" and c = carte_bruit and r = offre_bruit and k = 40
      and nav = nav_30 and i = Termine and d' = "replicate 1000 offre_bruit"
      and j' = "[Session, Get 1, Pause, Cookies]
               @ concat (map (\<lambda>q. [Cartes q, Get (q + 1), Pause]) [1..<35])
               @ [Quit, Export 1000]"]
  note t' = objectif_jamais_depasse [where d = "replicate 990 offre_bruit" and k = 2
      and nav = nav_30 and p = 34 and j = "[]" and i = Termine
      and d' = "replicate 1000 offre_bruit" and j' = "[Cartes 34, Get 35, Pause]"]
  have "length (replicate 1000 offre_bruit) \<le> OBJECTIF"
    using t run by blast
  moreover have "length (replicate 1000 offre_bruit) \<le> OBJECTIF"
    using t' l b by blast
  moreover have "parcourir (carte_bruit # replicate 20 carte_bruit) (replicate 999 offre_bruit)
       = replicate 999 offre_bruit @ [offre_bruit]"
    using t e by blast
  moreover have "length (parcourir (replicate 20 carte_bruit) (replicate 999 offre_bruit))
      \<le> OBJECTIF"
    using t l by blast
  ultimately show ?thesis
    using run b by (simp add: OBJECTIF_def del: upt_Suc boucle.simps)
qed

lemma session_fermee_apres_premiere_page:
  assumes "get_ok nav 1" and "chrome_ok nav \<or> service_ok nav"
    and "lancer_scraping_france k nav = Some (i, d, j)"
  shows "Quit \<in> set j"
  using assms unfolding lancer_scraping_france_def
  by (auto split: option.splits issue.splits if_splits)

text \<open>
  C4, where the code departs from it. The browser \<open>nav_panne\<close> starts, so the session is
  acquired, and its first \<open>driver.get\<close> raises: the run ends with this exception, and it
  has not closed the session.
\<close>

theorem session_non_fermee:
  "chrome_ok nav_panne
   \<and> lancer_scraping_france k nav_panne = Some (Exception, [], [Session, Get 1])
   \<and> Quit \<notin> set [Session, Get 1]"
  by (simp add: lancer_scraping_france_def nav_panne_def)

text \<open>
  C5, where the code departs from it. With thirty cards on every page the run reaches the
  target on the page 34, whose last twenty cards it does not read; it then requests the
  page 35 and sleeps, although it has its 1000 records, and only then stops.
\<close>

theorem page_demandee_apres_objectif:
  "lancer_scraping_france 35 nav_30
     = Some (Termine, replicate 1000 offre_bruit,
             [Session, Get 1, Pause, Cookies] @ concat (map (\<lambda>q. [Cartes q, Get (q + 1), Pause]) [1..<35])
               @ [Quit, Export 1000])
   \<and> length (replicate 1000 offre_bruit) = OBJECTIF
   \<and> parcourir (replicate 30 carte_bruit) (replicate 990 offre_bruit)
       = replicate 1000 offre_bruit
   \<and> suffix [Cartes 34, Get 35, Pause, Quit, Export 1000]
        ([Session, Get 1, Pause, Cookies] @ concat (map (\<lambda>q. [Cartes q, Get (q + 1), Pause]) [1..<35])
           @ [Quit, Export 1000])"
proof -
  have f: "Suc (Suc (33 + 0)) = (35 :: nat)"
    by simp
  have 1: "lancer_scraping_france 35 nav_30
     = Some (Termine, replicate 1000 offre_bruit,
             [Session, Get 1, Pause, Cookies] @ concat (map (\<lambda>q. [Cartes q, Get (q + 1), Pause]) [1..<35])
               @ [Quit, Export 1000])"
    using lancer_nav_30 [of 0] unfolding f .
  have 2: "parcourir (replicate 30 carte_bruit) (replicate 990 offre_bruit)
       = replicate 1000 offre_bruit"
    using parcourir_nav_30 [of 33] by simp
  have "[1..<Suc 34] = [1..<34] @ [34]"
    by (rule upt_Suc_append) simp
  moreover have "Suc 34 = 35"
    by simp
  ultimately have "[1..<35] = [1..<34] @ [34]"
    by (simp only:)
  then have 3: "suffix [Cartes 34, Get 35, Pause, Quit, Export 1000]
        ([Session, Get 1, Pause, Cookies] @ concat (map (\<lambda>q. [Cartes q, Get (q + 1), Pause]) [1..<35])
           @ [Quit, Export 1000])"
    by (simp add: suffix_def del: upt_Suc)
  from 1 2 3 show ?thesis
    by (simp add: OBJECTIF_def del: upt_Suc)
qed

end
